theory Spec2Isabelle
  imports Main "HOL-Library.Code_Target_Nat" "HOL-Library.Sublist" "HOL-Library.Char_ord" "HOL-Library.List_Lexorder"
begin

section \<open>Strings and the string primitives the program calls\<close>

text \<open>
  The program is \<^verbatim>\<open>src/index.js\<close>, an ES module (it uses \<^verbatim>\<open>import\<close>), so it runs in
  strict mode. A JavaScript string is modelled as a \<^typ>\<open>string\<close>: a list of code units, here
  the code units \<open>0..255\<close> (ASCII and Latin-1). \<open>length\<close> is the \<^verbatim>\<open>.length\<close> of the
  source.

  \<^verbatim>\<open>String.prototype.trim\<close> removes white space and line terminators from both ends. In the
  range modelled these are TAB, LF, VT, FF, CR, SPACE and NBSP.
\<close>

definition is_white_space :: "char \<Rightarrow> bool" where
  "is_white_space c \<longleftrightarrow> (of_char c :: nat) \<in> {9, 10, 11, 12, 13, 32, 160}"

definition trim :: "string \<Rightarrow> string" where
  "trim s = rev (dropWhile is_white_space (rev (dropWhile is_white_space s)))"

text \<open>
  \<^verbatim>\<open>String.prototype.toLowerCase\<close>: in the range modelled the letters with a lower-case
  partner are \<open>A..Z\<close> and the Latin-1 capitals \<open>0xC0..0xDE\<close> without the multiplication sign
  \<open>0xD7\<close>; the partner is 32 code units higher.
\<close>

definition toLowerCase_char :: "char \<Rightarrow> char" where
  "toLowerCase_char c =
     (let n = (of_char c :: nat)
      in if (65 \<le> n \<and> n \<le> 90) \<or> (192 \<le> n \<and> n \<le> 214) \<or> (216 \<le> n \<and> n \<le> 222)
         then char_of (n + 32) else c)"

definition toLowerCase :: "string \<Rightarrow> string" where
  "toLowerCase s = map toLowerCase_char s"

text \<open>
  A regular expression literal with the flag \<^verbatim>\<open>i\<close> (and without \<^verbatim>\<open>u\<close>) compares
  canonicalised code units: a code unit is replaced by its upper-case partner, except that
  a code unit \<open>\<ge> 128\<close> is never mapped to one \<open>< 128\<close>. The patterns of this program are
  ASCII, so only the canonical form of ASCII code units can decide a match: \<open>a..z\<close> become
  \<open>A..Z\<close>, and a code unit \<open>\<ge> 128\<close> (whose canonical form is again \<open>\<ge> 128\<close>) is left as
  it is. \<^verbatim>\<open>/lit/i.test(s)\<close> for a literal \<^verbatim>\<open>lit\<close> without metacharacters holds when the
  canonicalised literal occurs as a contiguous run in the canonicalised \<open>s\<close>.
\<close>

definition canonicalize :: "char \<Rightarrow> char" where
  "canonicalize c =
     (let n = (of_char c :: nat) in if 97 \<le> n \<and> n \<le> 122 then char_of (n - 32) else c)"

definition test_ci :: "string \<Rightarrow> string \<Rightarrow> bool" where
  "test_ci lit s \<longleftrightarrow> sublist (map canonicalize lit) (map canonicalize s)"

section \<open>Errors\<close>

text \<open>
  Every \<^verbatim>\<open>throw\<close> of the source and every \<^verbatim>\<open>console.error\<close> followed by
  \<^verbatim>\<open>process.exit(1)\<close> is a value of \<open>error\<close>; the constructors carry the error kinds of
  the specification. The argument of \<open>InvalidName\<close> and of \<open>DisallowedScheme\<close> tells the
  places of the source apart that raise the same kind with different messages.
\<close>

datatype name_fault =
    NameEmpty       \<comment> \<open>\<^verbatim>\<open>Shortcut name must be a non-empty string\<close>\<close>
  | NameLength      \<comment> \<open>\<^verbatim>\<open>Shortcut name must be between 1 and 50 characters\<close>\<close>
  | NameCharacters  \<comment> \<open>\<^verbatim>\<open>Shortcut name can only contain letters, numbers, hyphens, and underscores\<close>\<close>
  | NameReserved    \<comment> \<open>\<^verbatim>\<open>... is a reserved command and cannot be used as a shortcut name\<close>\<close>

datatype scheme_fault =
    DangerousPattern  \<comment> \<open>\<^verbatim>\<open>URL contains disallowed protocol\<close>, raised before parsing\<close>
  | NotHttp           \<comment> \<open>\<^verbatim>\<open>Only http and https URLs are allowed for security reasons\<close>\<close>

datatype error =
    InvalidName name_fault
  | InvalidUrl                    \<comment> \<open>\<^verbatim>\<open>URL must be a non-empty string\<close>\<close>
  | DisallowedScheme scheme_fault
  | MalformedUrl                  \<comment> \<open>\<^verbatim>\<open>Invalid URL format. ...\<close>\<close>
  | InvalidBrowser                \<comment> \<open>\<^verbatim>\<open>Browser name must be a non-empty string\<close>\<close>
  | UnsupportedBrowser "string list"  \<comment> \<open>the message lists the supported browsers\<close>
  | BuiltInConflict               \<comment> \<open>\<^verbatim>\<open>... is a built-in shortcut and cannot be overwritten / removed\<close>\<close>
  | NotFound                      \<comment> \<open>\<^verbatim>\<open>Shortcut ... not found\<close>\<close>
  | PersistenceError              \<comment> \<open>\<^verbatim>\<open>Could not save config: ...\<close>\<close>
  | LaunchError                   \<comment> \<open>\<^verbatim>\<open>Could not open URL: ...\<close>\<close>
  | EmptyQuery                    \<comment> \<open>\<^verbatim>\<open>Search query cannot be empty.\<close>\<close>
  | QueryTooLong                  \<comment> \<open>\<^verbatim>\<open>Search query is too long (max 500 characters).\<close>\<close>
  | UnknownEngine                 \<comment> \<open>\<^verbatim>\<open>Unknown search engine ...\<close>\<close>
  | EngineError                   \<comment> \<open>a \<^verbatim>\<open>TypeError\<close>, \<^verbatim>\<open>RangeError\<close> or \<^verbatim>\<open>URIError\<close> thrown by the engine\<close>

section \<open>Validators\<close>

subsection \<open>\<^verbatim>\<open>validateShortcutName\<close>\<close>

text \<open>The character class \<^verbatim>\<open>[a-z0-9_-]\<close> and the pattern \<^verbatim>\<open>/^[a-z0-9_-]+$/\<close>.\<close>

definition name_char :: "char \<Rightarrow> bool" where
  "name_char c \<longleftrightarrow>
     (let n = (of_char c :: nat)
      in (97 \<le> n \<and> n \<le> 122) \<or> (48 \<le> n \<and> n \<le> 57) \<or> c = CHR ''_'' \<or> c = CHR ''-'')"

definition validNamePattern :: "string \<Rightarrow> bool" where
  "validNamePattern s \<longleftrightarrow> s \<noteq> [] \<and> list_all name_char s"

definition reservedNames :: "string list" where
  "reservedNames = [''add'', ''remove'', ''list'', ''search'', ''config'', ''help'', ''version'']"

definition validateShortcutName :: "string \<Rightarrow> error + string" where
  "validateShortcutName name =
     (if name = [] then Inl (InvalidName NameEmpty)
      else let trimmedName = toLowerCase (trim name)
           in if length trimmedName = 0 \<or> length trimmedName > 50 then Inl (InvalidName NameLength)
              else if \<not> validNamePattern trimmedName then Inl (InvalidName NameCharacters)
              else if trimmedName \<in> set reservedNames then Inl (InvalidName NameReserved)
              else Inr trimmedName)"

text \<open>
  The pattern of the specification, \<^verbatim>\<open>[a-z0-9_-]{1,50}\<close>, as a predicate on the whole
  string.
\<close>

definition spec_name_pattern :: "string \<Rightarrow> bool" where
  "spec_name_pattern s \<longleftrightarrow> 1 \<le> length s \<and> length s \<le> 50 \<and> list_all name_char s"

subsection \<open>\<^verbatim>\<open>validateUrl\<close>\<close>

text \<open>
  \<^verbatim>\<open>new URL(s)\<close> is the URL parser of the platform, not code of this program. It is a
  parameter of the model: it either throws (\<open>None\<close>) or yields a URL object, of which the
  program reads \<^verbatim>\<open>protocol\<close> and \<^verbatim>\<open>href\<close> (the canonical serialisation).
\<close>

record url =
  protocol :: string
  href :: string

type_synonym url_parser = "string \<Rightarrow> url option"

definition dangerousPatterns :: "string list" where
  "dangerousPatterns =
     [''javascript:'', ''data:'', ''vbscript:'', ''file:'', ''about:'', ''blob:'']"

definition validateUrl :: "url_parser \<Rightarrow> string \<Rightarrow> error + string" where
  "validateUrl parse urlString =
     (if urlString = [] then Inl InvalidUrl
      else let trimmedUrl = trim urlString
           in if list_ex (\<lambda>pattern. test_ci pattern trimmedUrl) dangerousPatterns
              then Inl (DisallowedScheme DangerousPattern)
              else case parse trimmedUrl of
                     None \<Rightarrow> Inl MalformedUrl
                   | Some u \<Rightarrow>
                       if protocol u \<noteq> ''http:'' \<and> protocol u \<noteq> ''https:''
                       then Inl (DisallowedScheme NotHttp)
                       else Inr (href u))"

subsection \<open>\<^verbatim>\<open>validateBrowser\<close>\<close>

text \<open>
  \<^verbatim>\<open>BROWSERS\<close> maps a browser name to its app identifier; \<^verbatim>\<open>default\<close> maps to
  \<^verbatim>\<open>undefined\<close> (\<open>None\<close>).
\<close>

definition BROWSERS :: "(string \<times> string option) list" where
  "BROWSERS =
     [(''chrome'', Some ''chrome''), (''firefox'', Some ''firefox''),
      (''safari'', Some ''safari''), (''edge'', Some ''msedge''),
      (''brave'', Some ''brave''), (''opera'', Some ''opera''),
      (''default'', None)]"

definition validateBrowser :: "string \<Rightarrow> error + string" where
  "validateBrowser browser =
     (if browser = [] then Inl InvalidBrowser
      else let normalizedBrowser = toLowerCase (trim browser)
           in if normalizedBrowser \<notin> set (map fst BROWSERS)
              then Inl (UnsupportedBrowser (map fst BROWSERS))
              else Inr normalizedBrowser)"

section \<open>JSON values and JavaScript property access\<close>

text \<open>
  The values that \<^verbatim>\<open>JSON.parse\<close> can return. The program never computes with a number: it
  only tests whether a number is falsy (zero), so numbers are integers here. The entries of
  \<open>JObj\<close> are the own properties of the object in the order in which \<^verbatim>\<open>Object.entries\<close>
  lists them (array indices in ascending order first, then the other keys in insertion
  order), each key once.
\<close>

datatype json =
    JNull
  | JBool bool
  | JNum int
  | JStr string
  | JArr "json list"
  | JObj "(string \<times> json) list"

fun truthy :: "json \<Rightarrow> bool" where
  "truthy JNull = False"
| "truthy (JBool b) = b"
| "truthy (JNum n) = (n \<noteq> 0)"
| "truthy (JStr s) = (s \<noteq> [])"
| "truthy (JArr xs) = True"
| "truthy (JObj kvs) = True"

text \<open>\<^verbatim>\<open>v || d\<close>, where \<open>None\<close> is \<^verbatim>\<open>undefined\<close>.\<close>

definition or_default :: "json option \<Rightarrow> json \<Rightarrow> json" where
  "or_default v d = (case v of None \<Rightarrow> d | Some x \<Rightarrow> if truthy x then x else d)"

text \<open>
  \<^verbatim>\<open>v.k\<close> and \<^verbatim>\<open>v?.k\<close> for the keys the program reads from the parsed document
  (\<^verbatim>\<open>customShortcuts\<close>, \<^verbatim>\<open>settings\<close>, \<^verbatim>\<open>browser\<close>): none of them is a property of a
  primitive, of an array or of \<^verbatim>\<open>Object.prototype\<close>, so only an own property of an object
  gives a value. (\<^verbatim>\<open>null.k\<close> would throw; the program reads from \<^verbatim>\<open>null\<close> only through
  \<^verbatim>\<open>?.\<close>, which gives \<^verbatim>\<open>undefined\<close>.)
\<close>

fun get_field :: "json \<Rightarrow> string \<Rightarrow> json option" where
  "get_field (JObj kvs) k = map_of kvs k"
| "get_field _ k = None"

text \<open>\<^verbatim>\<open>typeof v === 'object' && v !== null\<close>: arrays are objects.\<close>

fun is_object :: "json \<Rightarrow> bool" where
  "is_object (JObj kvs) = True"
| "is_object (JArr xs) = True"
| "is_object _ = False"

subsection \<open>Array indices\<close>

definition digit_char :: "nat \<Rightarrow> char" where
  "digit_char d = char_of (48 + d)"

fun decimal :: "nat \<Rightarrow> string" where
  "decimal n = (if n < 10 then [digit_char n] else decimal (n div 10) @ [digit_char (n mod 10)])"

declare decimal.simps [simp del]

definition is_digit :: "char \<Rightarrow> bool" where
  "is_digit c \<longleftrightarrow> 48 \<le> (of_char c :: nat) \<and> (of_char c :: nat) \<le> 57"

definition digits_value :: "string \<Rightarrow> nat" where
  "digits_value s = foldl (\<lambda>a c. 10 * a + ((of_char c :: nat) - 48)) 0 s"

text \<open>
  A property key is an array index when it is the canonical decimal form of an integer
  between \<open>0\<close> and \<open>2\<^sup>3\<^sup>2 - 2\<close>.
\<close>

definition array_index :: "string \<Rightarrow> nat option" where
  "array_index k =
     (if k \<noteq> [] \<and> list_all is_digit k \<and> (length k = 1 \<or> hd k \<noteq> CHR ''0'')
         \<and> digits_value k \<le> 4294967294
      then Some (digits_value k) else None)"

subsection \<open>Own properties\<close>

text \<open>
  \<^verbatim>\<open>Object.entries(v)\<close>, which is also what the spread \<^verbatim>\<open>{...v}\<close> copies: the own
  enumerable properties. An array and a string have their elements under the indices; a
  number and a boolean have none.
\<close>

fun object_entries :: "json \<Rightarrow> (string \<times> json) list" where
  "object_entries (JObj kvs) = kvs"
| "object_entries (JArr xs) = zip (map decimal [0..<length xs]) xs"
| "object_entries (JStr s) = zip (map decimal [0..<length s]) (map (\<lambda>c. JStr [c]) s)"
| "object_entries _ = []"

text \<open>
  \<^verbatim>\<open>Object.prototype.hasOwnProperty.call(v, k)\<close>. Arrays and strings own their indices and
  \<^verbatim>\<open>length\<close>. (The program calls it on the loaded \<^verbatim>\<open>customShortcuts\<close>, which is never
  \<^verbatim>\<open>null\<close>.)
\<close>

definition own_index :: "nat \<Rightarrow> string \<Rightarrow> bool" where
  "own_index n k \<longleftrightarrow>
     k = ''length'' \<or> (case array_index k of None \<Rightarrow> False | Some i \<Rightarrow> i < n)"

fun hasOwnProperty :: "json \<Rightarrow> string \<Rightarrow> bool" where
  "hasOwnProperty (JObj kvs) k = (k \<in> set (map fst kvs))"
| "hasOwnProperty (JArr xs) k = own_index (length xs) k"
| "hasOwnProperty (JStr s) k = own_index (length s) k"
| "hasOwnProperty _ k = False"

text \<open>
  A new own property of an ordinary object takes its place in the enumeration order: an
  array index goes before the first key that is a larger index or no index, any other key
  goes to the end.
\<close>

definition precedes :: "string \<Rightarrow> string \<Rightarrow> bool" where
  "precedes k k' =
     (case array_index k of
        None \<Rightarrow> False
      | Some i \<Rightarrow> (case array_index k' of None \<Rightarrow> True | Some j \<Rightarrow> i < j))"

fun insert_property :: "string \<Rightarrow> json \<Rightarrow> (string \<times> json) list \<Rightarrow> (string \<times> json) list" where
  "insert_property k v [] = [(k, v)]"
| "insert_property k v (p # ps) =
     (if precedes k (fst p) then (k, v) # p # ps else p # insert_property k v ps)"

definition put_property :: "string \<Rightarrow> json \<Rightarrow> (string \<times> json) list \<Rightarrow> (string \<times> json) list" where
  "put_property k v kvs =
     (if k \<in> set (map fst kvs) then map (\<lambda>p. if fst p = k then (k, v) else p) kvs
      else insert_property k v kvs)"

text \<open>
  The assignment \<^verbatim>\<open>target[k] = url\<close> of a string \<^verbatim>\<open>url\<close> in strict mode; the result is the
  target as \<^verbatim>\<open>JSON.stringify\<close> will write it.
  \<^item> On an ordinary object the key \<^verbatim>\<open>__proto__\<close>, unless it is an own property, reaches the
    accessor inherited from \<^verbatim>\<open>Object.prototype\<close>, whose setter ignores a value that is neither
    an object nor \<^verbatim>\<open>null\<close>: nothing is stored. Every other key becomes (or updates) an own
    property.
  \<^item> On an array an index sets that element (the holes it leaves are written as \<^verbatim>\<open>null\<close>),
    \<^verbatim>\<open>length\<close> throws a \<^verbatim>\<open>RangeError\<close> (a URL string is no length), and any other key
    becomes a named property, which \<^verbatim>\<open>JSON.stringify\<close> does not write.
  \<^item> On a string, a number or a boolean the key \<^verbatim>\<open>__proto__\<close> reaches the same inherited
    setter, which again ignores the string: nothing happens. Every other key throws a
    \<^verbatim>\<open>TypeError\<close>, since a primitive takes no property.
  \<^item> On \<^verbatim>\<open>null\<close> every assignment throws a \<^verbatim>\<open>TypeError\<close>.
\<close>

fun set_property :: "json \<Rightarrow> string \<Rightarrow> string \<Rightarrow> error + json" where
  "set_property (JObj kvs) k url =
     (if k = ''__proto__'' \<and> k \<notin> set (map fst kvs) then Inr (JObj kvs)
      else Inr (JObj (put_property k (JStr url) kvs)))"
| "set_property (JArr xs) k url =
     (if k = ''length'' then Inl EngineError
      else case array_index k of
             None \<Rightarrow> Inr (JArr xs)
           | Some i \<Rightarrow>
               Inr (JArr (if i < length xs then xs[i := JStr url]
                          else xs @ replicate (i - length xs) JNull @ [JStr url])))"
| "set_property JNull k url = Inl EngineError"
| "set_property v k url = (if k = ''__proto__'' then Inr v else Inl EngineError)"

text \<open>
  \<^verbatim>\<open>delete target[k]\<close> in strict mode, again as \<^verbatim>\<open>JSON.stringify\<close> will write the target:
  deleting an element of an array leaves a hole, written as \<^verbatim>\<open>null\<close>; the \<^verbatim>\<open>length\<close> of
  an array and the own properties of a string cannot be deleted (\<^verbatim>\<open>TypeError\<close>).
\<close>

fun delete_property :: "json \<Rightarrow> string \<Rightarrow> error + json" where
  "delete_property (JObj kvs) k = Inr (JObj (filter (\<lambda>p. fst p \<noteq> k) kvs))"
| "delete_property (JArr xs) k =
     (if k = ''length'' then Inl EngineError
      else case array_index k of
             None \<Rightarrow> Inr (JArr xs)
           | Some i \<Rightarrow> Inr (JArr (if i < length xs then xs[i := JNull] else xs)))"
| "delete_property (JStr s) k = (if own_index (length s) k then Inl EngineError else Inr (JStr s))"
| "delete_property JNull k = Inl EngineError"
| "delete_property v k = Inr v"

section \<open>The configuration store\<close>

text \<open>
  The configuration file \<^verbatim>\<open>~/.openapprc.json\<close> as the program can observe it:
  \<^item> \<open>Missing\<close>: \<^verbatim>\<open>existsSync\<close> is false;
  \<^item> \<open>Unreadable\<close>: the path exists and \<^verbatim>\<open>readFileSync\<close> throws;
  \<^item> \<open>NotJson\<close>: the content is read and \<^verbatim>\<open>JSON.parse\<close> throws;
  \<^item> \<open>Json v\<close>: the content is read and \<^verbatim>\<open>JSON.parse\<close> returns \<open>v\<close>.

  \<^verbatim>\<open>writeFileSync\<close> either replaces the content or throws and leaves it; \<open>writable\<close> says
  which. The text \<^verbatim>\<open>JSON.stringify(v, null, 2)\<close> parses back to \<open>v\<close>, so writing a value \<open>v\<close>
  leaves the file as \<open>Json v\<close>.
\<close>

datatype config_file = Missing | Unreadable | NotJson | Json json

record disk =
  content :: config_file
  writable :: bool

record settings =
  browser :: json

record config =
  customShortcuts :: json
  settings :: settings

datatype warning =
    InvalidFormat  \<comment> \<open>\<^verbatim>\<open>Warning: Invalid config file format. Using defaults.\<close>\<close>
  | CouldNotRead   \<comment> \<open>\<^verbatim>\<open>Warning: Could not read config file. Using defaults.\<close>\<close>

definition defaultConfig :: config where
  "defaultConfig = \<lparr>customShortcuts = JObj [], settings = \<lparr>browser = JStr ''default''\<rparr>\<rparr>"

text \<open>The two calls at the start of the \<^verbatim>\<open>try\<close> block of \<^verbatim>\<open>loadConfig\<close> that can throw.\<close>

fun read_and_parse :: "config_file \<Rightarrow> error + json" where
  "read_and_parse (Json v) = Inr v"
| "read_and_parse _ = Inl EngineError"

text \<open>\<^verbatim>\<open>loadConfig\<close> returns a configuration and the warnings it printed.\<close>

definition loadConfig :: "config_file \<Rightarrow> config \<times> warning list" where
  "loadConfig f =
     (if f = Missing then (defaultConfig, [])
      else case read_and_parse f of
             Inl e \<Rightarrow> (defaultConfig, [CouldNotRead])
           | Inr cfg \<Rightarrow>
               if \<not> is_object cfg then (defaultConfig, [InvalidFormat])
               else (\<lparr>customShortcuts = or_default (get_field cfg ''customShortcuts'') (JObj []),
                      settings =
                        \<lparr>browser =
                           or_default
                             (case get_field cfg ''settings'' of
                                None \<Rightarrow> None
                              | Some st \<Rightarrow> get_field st ''browser'')
                             (JStr ''default'')\<rparr>\<rparr>, []))"

definition config_json :: "config \<Rightarrow> json" where
  "config_json c =
     JObj [(''customShortcuts'', customShortcuts c),
           (''settings'', JObj [(''browser'', browser (settings c))])]"

definition saveConfig :: "disk \<Rightarrow> config \<Rightarrow> error + disk" where
  "saveConfig d c =
     (if writable d then Inr (d\<lparr>content := Json (config_json c)\<rparr>) else Inl PersistenceError)"

section \<open>The shortcut tables\<close>

definition BUILT_IN_SHORTCUTS :: "(string \<times> string) list" where
  "BUILT_IN_SHORTCUTS =
     [(''youtube'', ''https://www.youtube.com''),
      (''facebook'', ''https://www.facebook.com''),
      (''twitter'', ''https://www.twitter.com''),
      (''x'', ''https://www.x.com''),
      (''instagram'', ''https://www.instagram.com''),
      (''linkedin'', ''https://www.linkedin.com''),
      (''reddit'', ''https://www.reddit.com''),
      (''pinterest'', ''https://www.pinterest.com''),
      (''tiktok'', ''https://www.tiktok.com''),
      (''snapchat'', ''https://www.snapchat.com''),
      (''gmail'', ''https://mail.google.com''),
      (''outlook'', ''https://outlook.live.com''),
      (''drive'', ''https://drive.google.com''),
      (''docs'', ''https://docs.google.com''),
      (''sheets'', ''https://sheets.google.com''),
      (''slides'', ''https://slides.google.com''),
      (''calendar'', ''https://calendar.google.com''),
      (''notion'', ''https://www.notion.so''),
      (''trello'', ''https://trello.com''),
      (''slack'', ''https://slack.com''),
      (''discord'', ''https://discord.com''),
      (''zoom'', ''https://zoom.us''),
      (''meet'', ''https://meet.google.com''),
      (''teams'', ''https://teams.microsoft.com''),
      (''github'', ''https://github.com''),
      (''gitlab'', ''https://gitlab.com''),
      (''bitbucket'', ''https://bitbucket.org''),
      (''stackoverflow'', ''https://stackoverflow.com''),
      (''npm'', ''https://www.npmjs.com''),
      (''codepen'', ''https://codepen.io''),
      (''codesandbox'', ''https://codesandbox.io''),
      (''vercel'', ''https://vercel.com''),
      (''netlify'', ''https://www.netlify.com''),
      (''netflix'', ''https://www.netflix.com''),
      (''prime'', ''https://www.primevideo.com''),
      (''hotstar'', ''https://www.hotstar.com''),
      (''spotify'', ''https://open.spotify.com''),
      (''twitch'', ''https://www.twitch.tv''),
      (''amazon'', ''https://www.amazon.com''),
      (''flipkart'', ''https://www.flipkart.com''),
      (''ebay'', ''https://www.ebay.com''),
      (''google'', ''https://www.google.com''),
      (''bing'', ''https://www.bing.com''),
      (''duckduckgo'', ''https://duckduckgo.com''),
      (''wikipedia'', ''https://www.wikipedia.org''),
      (''chatgpt'', ''https://chat.openai.com''),
      (''claude'', ''https://claude.ai''),
      (''gemini'', ''https://gemini.google.com''),
      (''perplexity'', ''https://www.perplexity.ai''),
      (''hackernews'', ''https://news.ycombinator.com''),
      (''medium'', ''https://medium.com''),
      (''devto'', ''https://dev.to'')]"

text \<open>\<^verbatim>\<open>Object.prototype.hasOwnProperty.call(BUILT_IN_SHORTCUTS, name)\<close>.\<close>

definition is_built_in :: "string \<Rightarrow> bool" where
  "is_built_in name \<longleftrightarrow> name \<in> set (map fst BUILT_IN_SHORTCUTS)"

text \<open>
  \<^verbatim>\<open>getAllShortcuts\<close>: the spread \<^verbatim>\<open>{...BUILT_IN_SHORTCUTS, ...config.customShortcuts}\<close>
  defines the built-in entries and then the own properties of the custom table; a later
  definition of a key replaces an earlier one. The result is read by key only, so it is a
  map.
\<close>

definition getAllShortcuts :: "config_file \<Rightarrow> (string \<rightharpoonup> json)" where
  "getAllShortcuts f =
     (let config = fst (loadConfig f)
      in map_of (rev (map (\<lambda>(name, u). (name, JStr u)) BUILT_IN_SHORTCUTS
                      @ object_entries (customShortcuts config))))"

text \<open>
  The lookup of the default command (\<^verbatim>\<open>openapp <shortcut>\<close>), up to the URL it hands to
  \<^verbatim>\<open>openUrl\<close>.
\<close>

definition lookup_shortcut :: "config_file \<Rightarrow> string \<Rightarrow> error + json" where
  "lookup_shortcut f shortcut =
     (case validateShortcutName shortcut of
        Inl e \<Rightarrow> Inl e
      | Inr normalizedName \<Rightarrow>
          (case getAllShortcuts f normalizedName of
             None \<Rightarrow> Inl NotFound
           | Some u \<Rightarrow> Inr u))"

section \<open>Launching the browser\<close>

text \<open>
  \<^verbatim>\<open>BROWSERS[browserName]\<close> is a property read with a computed key. The key is first
  converted to a string. For the values a parsed document can hold: a string is its own
  key; \<^verbatim>\<open>null\<close>, a boolean and a number are their literals; an array is its elements joined
  by commas, with \<^verbatim>\<open>null\<close> elements empty; an object is \<^verbatim>\<open>[object Object]\<close>, unless an
  own property hides the inherited \<^verbatim>\<open>toString\<close>: its value is not callable, and the
  conversion throws a \<^verbatim>\<open>TypeError\<close> (\<open>None\<close>).
\<close>

fun join :: "string \<Rightarrow> string list \<Rightarrow> string" where
  "join sep [] = []"
| "join sep [x] = x"
| "join sep (x # y # ys) = x @ sep @ join sep (y # ys)"

fun to_property_key :: "json \<Rightarrow> string option" where
  "to_property_key JNull = Some ''null''"
| "to_property_key (JBool b) = Some (if b then ''true'' else ''false'')"
| "to_property_key (JNum n) =
     Some (if n < 0 then CHR ''-'' # decimal (nat (- n)) else decimal (nat n))"
| "to_property_key (JStr s) = Some s"
| "to_property_key (JArr xs) =
     map_option (join '','')
       (those (map (\<lambda>x. if x = JNull then Some [] else to_property_key x) xs))"
| "to_property_key (JObj kvs) =
     (if ''toString'' \<in> set (map fst kvs) then None else Some ''[object Object]'')"

text \<open>
  The read then looks for an own property of \<^verbatim>\<open>BROWSERS\<close> and, when there is none, for a
  property inherited from \<^verbatim>\<open>Object.prototype\<close>, whose members are functions (and, under
  \<^verbatim>\<open>__proto__\<close>, the prototype object itself): all of them truthy values that are not
  strings. \<open>None\<close> stands for \<^verbatim>\<open>undefined\<close>, the value of the key \<^verbatim>\<open>default\<close> and of
  every key that is found nowhere.
\<close>

definition object_prototype_keys :: "string list" where
  "object_prototype_keys =
     [''constructor'', ''__defineGetter__'', ''__defineSetter__'', ''hasOwnProperty'',
      ''__lookupGetter__'', ''__lookupSetter__'', ''isPrototypeOf'', ''propertyIsEnumerable'',
      ''toString'', ''valueOf'', ''__proto__'', ''toLocaleString'']"

datatype app_id =
    AppName string      \<comment> \<open>an app identifier of \<^verbatim>\<open>BROWSERS\<close>\<close>
  | Inherited string    \<comment> \<open>the member of \<^verbatim>\<open>Object.prototype\<close> of that name\<close>

definition BROWSERS_get :: "string \<Rightarrow> app_id option" where
  "BROWSERS_get k =
     (case map_of BROWSERS k of
        Some v \<Rightarrow> map_option AppName v
      | None \<Rightarrow> if k \<in> set object_prototype_keys then Some (Inherited k) else None)"

definition incognitoArgs :: "(string \<times> string list) list" where
  "incognitoArgs =
     [(''chrome'', [''--incognito'']),
      (''firefox'', [''--private-window'']),
      (''safari'', []),
      (''msedge'', [''--inprivate'']),
      (''brave'', [''--incognito'']),
      (''opera'', [''--private''])]"

text \<open>
  \<^verbatim>\<open>incognitoArgs[browserApp]\<close>: an app identifier of \<^verbatim>\<open>BROWSERS\<close> is an own key of the
  table; an inherited member as key is the text of a function or \<^verbatim>\<open>[object Object]\<close>, found
  nowhere.
\<close>

fun incognitoArgs_get :: "app_id \<Rightarrow> string list option" where
  "incognitoArgs_get (AppName a) = map_of incognitoArgs a"
| "incognitoArgs_get (Inherited k) = None"

record app =
  app_name :: app_id
  app_arguments :: "string list option"

text \<open>A call \<^verbatim>\<open>open(url, openOptions)\<close> of the OS-open facility.\<close>

record open_call =
  target :: json
  app :: "app option"

datatype notice =
    SafariNoPrivateMode      \<comment> \<open>\<^verbatim>\<open>Note: Safari does not support opening in private mode ...\<close>\<close>
  | DefaultBrowserIncognito  \<comment> \<open>\<^verbatim>\<open>Note: Incognito mode may not work with the system default browser. ...\<close>\<close>

text \<open>
  The part of \<^verbatim>\<open>openUrl\<close> that builds \<^verbatim>\<open>openOptions\<close> from the loaded configuration and the
  \<^verbatim>\<open>incognito\<close> option, with the notices it prints.
\<close>

definition openOptions :: "config \<Rightarrow> bool \<Rightarrow> error + (app option \<times> notice list)" where
  "openOptions config incognito =
     (case to_property_key (browser (settings config)) of
        None \<Rightarrow> Inl EngineError
      | Some browserName \<Rightarrow>
          (case BROWSERS_get browserName of
             Some browserApp \<Rightarrow>
               if incognito then
                 (case incognitoArgs_get browserApp of
                    Some (a # as) \<Rightarrow>
                      Inr (Some \<lparr>app_name = browserApp, app_arguments = Some (a # as)\<rparr>, [])
                  | _ \<Rightarrow>
                      Inr (Some \<lparr>app_name = browserApp, app_arguments = None\<rparr>,
                           if browserApp = AppName ''safari'' then [SafariNoPrivateMode] else []))
               else Inr (Some \<lparr>app_name = browserApp, app_arguments = None\<rparr>, [])
           | None \<Rightarrow> Inr (None, if incognito then [DefaultBrowserIncognito] else [])))"

text \<open>
  What a run of \<^verbatim>\<open>openUrl\<close> (and of a command that ends in it) leaves behind: the error
  it ended with, if any, the warnings and notices printed, and the calls of the OS-open
  facility. The facility is a parameter: it accepts a call or rejects it.
\<close>

record outcome =
  failure :: "error option"
  warnings :: "warning list"
  notices :: "notice list"
  opened :: "open_call list"

definition failed :: "error \<Rightarrow> outcome" where
  "failed e = \<lparr>failure = Some e, warnings = [], notices = [], opened = []\<rparr>"

definition openUrl :: "(open_call \<Rightarrow> bool) \<Rightarrow> config_file \<Rightarrow> json \<Rightarrow> bool \<Rightarrow> outcome" where
  "openUrl os_open f u incognito =
     (case loadConfig f of
        (config, ws) \<Rightarrow>
          (case openOptions config incognito of
             Inl e \<Rightarrow> \<lparr>failure = Some e, warnings = ws, notices = [], opened = []\<rparr>
           | Inr (a, ns) \<Rightarrow>
               \<lparr>failure = (if os_open \<lparr>target = u, app = a\<rparr> then None else Some LaunchError),
                warnings = ws, notices = ns, opened = [\<lparr>target = u, app = a\<rparr>]\<rparr>))"

section \<open>Commands\<close>

subsection \<open>\<^verbatim>\<open>add\<close> and \<^verbatim>\<open>remove\<close>\<close>

text \<open>
  A command returns its result and the disk it leaves. \<open>Inl e\<close> is the error line printed
  before \<^verbatim>\<open>process.exit(1)\<close>; \<open>Inr\<close> carries what the success line reports.
\<close>

definition add_cmd :: "url_parser \<Rightarrow> disk \<Rightarrow> string \<Rightarrow> string \<Rightarrow> (error + string \<times> string) \<times> disk" where
  "add_cmd parse d nm u =
     (case validateShortcutName nm of
        Inl e \<Rightarrow> (Inl e, d)
      | Inr validatedName \<Rightarrow>
          (case validateUrl parse u of
             Inl e \<Rightarrow> (Inl e, d)
           | Inr validatedUrl \<Rightarrow>
               if is_built_in validatedName then (Inl BuiltInConflict, d)
               else let config = fst (loadConfig (content d))
                    in case set_property (customShortcuts config) validatedName validatedUrl of
                         Inl e \<Rightarrow> (Inl e, d)
                       | Inr cs \<Rightarrow>
                           (case saveConfig d (config\<lparr>customShortcuts := cs\<rparr>) of
                              Inl e \<Rightarrow> (Inl e, d)
                            | Inr d' \<Rightarrow> (Inr (validatedName, validatedUrl), d'))))"

definition remove_cmd :: "disk \<Rightarrow> string \<Rightarrow> (error + string) \<times> disk" where
  "remove_cmd d nm =
     (case validateShortcutName nm of
        Inl e \<Rightarrow> (Inl e, d)
      | Inr validatedName \<Rightarrow>
          if is_built_in validatedName then (Inl BuiltInConflict, d)
          else let config = fst (loadConfig (content d))
               in if \<not> hasOwnProperty (customShortcuts config) validatedName
                  then (Inl NotFound, d)
                  else case delete_property (customShortcuts config) validatedName of
                         Inl e \<Rightarrow> (Inl e, d)
                       | Inr cs \<Rightarrow>
                           (case saveConfig d (config\<lparr>customShortcuts := cs\<rparr>) of
                              Inl e \<Rightarrow> (Inl e, d)
                            | Inr d' \<Rightarrow> (Inr validatedName, d')))"

subsection \<open>\<^verbatim>\<open>list\<close>\<close>

text \<open>
  \<^verbatim>\<open>Array.prototype.sort\<close> with a comparison function: the sort is stable, and \<open>a\<close> stays
  before \<open>b\<close> unless the comparison of \<open>a\<close> with \<open>b\<close> is positive. For a consistent
  comparison function that fixes the result, which is the one that insertion from the right
  builds.
\<close>

fun insert_sorted :: "('a \<Rightarrow> 'a \<Rightarrow> int) \<Rightarrow> 'a \<Rightarrow> 'a list \<Rightarrow> 'a list" where
  "insert_sorted c x [] = [x]"
| "insert_sorted c x (y # ys) = (if c x y \<le> 0 then x # y # ys else y # insert_sorted c x ys)"

definition array_sort :: "('a \<Rightarrow> 'a \<Rightarrow> int) \<Rightarrow> 'a list \<Rightarrow> 'a list" where
  "array_sort c xs = foldr (insert_sorted c) xs []"

text \<open>
  A row is \<^verbatim>\<open>[name, url, type]\<close>. \<^verbatim>\<open>localeCompare\<close> is the string comparison of the
  platform in the locale of the process, a parameter of the model. The result of
  \<open>list_cmd\<close> is the list of rows handed to \<^verbatim>\<open>printTable\<close>, whose length is the total
  printed.
\<close>

type_synonym row = "string \<times> json \<times> string"

definition list_cmd :: "(string \<Rightarrow> string \<Rightarrow> int) \<Rightarrow> config_file \<Rightarrow> bool \<Rightarrow> bool \<Rightarrow> row list" where
  "list_cmd localeCompare f builtin custom =
     (let config = fst (loadConfig f);
          rows = (if \<not> custom then map (\<lambda>(n, u). (n, JStr u, ''built-in'')) BUILT_IN_SHORTCUTS
                  else [])
               @ (if \<not> builtin
                  then map (\<lambda>(n, u). (n, u, ''custom'')) (object_entries (customShortcuts config))
                  else [])
      in array_sort (\<lambda>a b. localeCompare (fst a) (fst b)) rows)"

subsection \<open>\<^verbatim>\<open>search\<close>\<close>

definition searchEngines :: "(string \<times> string) list" where
  "searchEngines =
     [(''google'', ''https://www.google.com/search?q=''),
      (''bing'', ''https://www.bing.com/search?q=''),
      (''duckduckgo'', ''https://duckduckgo.com/?q='')]"

text \<open>
  \<^verbatim>\<open>encodeURIComponent\<close> is a parameter; it throws a \<^verbatim>\<open>URIError\<close> (\<open>None\<close>) on a lone
  surrogate.
\<close>

definition search_cmd ::
  "(string \<Rightarrow> string option) \<Rightarrow> (open_call \<Rightarrow> bool) \<Rightarrow> config_file
     \<Rightarrow> string list \<Rightarrow> bool \<Rightarrow> string \<Rightarrow> outcome" where
  "search_cmd encodeURIComponent os_open f queryParts incognito engine_option =
     (let query = trim (join '' '' queryParts)
      in if query = [] then failed EmptyQuery
         else if length query > 500 then failed QueryTooLong
         else let engine = toLowerCase engine_option
              in case map_of searchEngines engine of
                   None \<Rightarrow> failed UnknownEngine
                 | Some engine_url \<Rightarrow>
                     (case encodeURIComponent query of
                        None \<Rightarrow> failed EngineError
                      | Some encodedQuery \<Rightarrow>
                          openUrl os_open f (JStr (engine_url @ encodedQuery)) incognito))"

section \<open>Instances of the platform parameters\<close>

text \<open>
  The theorems below hold for every URL parser. Their examples are run with the results
  that the parser of the platform (the URL Standard) gives on four inputs: the host is
  lower-cased, an empty path becomes \<^verbatim>\<open>/\<close>. Every input outside the table is taken
  as not parsable, as \<^verbatim>\<open>not a url\<close> is.
\<close>

definition sample_parse :: url_parser where
  "sample_parse =
     map_of
       [(''https://Example.com/Path'', \<lparr>protocol = ''https:'', href = ''https://example.com/Path''\<rparr>),
        (''ftp://x.com'', \<lparr>protocol = ''ftp:'', href = ''ftp://x.com/''\<rparr>),
        (''https://evil.example'', \<lparr>protocol = ''https:'', href = ''https://evil.example/''\<rparr>),
        (''https://example.com'', \<lparr>protocol = ''https:'', href = ''https://example.com/''\<rparr>)]"

text \<open>
  An instance of \<^verbatim>\<open>localeCompare\<close>: the order of the CLDR root collation, which an engine
  built with ICU uses in the English locales, on names over \<^verbatim>\<open>[a-z0-9_-]\<close>. There every
  character has a primary weight of its own, in the order underscore, hyphen, digits,
  letters (punctuation before digits before letters), and two names compare as the lists
  of their weights do. (Characters outside the alphabet of names are put after it, in code
  order; no example below uses them.)
\<close>

definition collation_weight :: "char \<Rightarrow> nat" where
  "collation_weight c =
     (let n = (of_char c :: nat)
      in if c = CHR ''_'' then 0
         else if c = CHR ''-'' then 1
         else if 48 \<le> n \<and> n \<le> 57 then 2 + (n - 48)
         else if 97 \<le> n \<and> n \<le> 122 then 12 + (n - 97)
         else 38 + n)"

fun root_collation :: "string \<Rightarrow> string \<Rightarrow> int" where
  "root_collation [] [] = 0"
| "root_collation [] (y # ys) = - 1"
| "root_collation (x # xs) [] = 1"
| "root_collation (x # xs) (y # ys) =
     (if collation_weight x < collation_weight y then - 1
      else if collation_weight y < collation_weight x then 1
      else root_collation xs ys)"

section \<open>Properties of the validators\<close>

subsection \<open>Shortcut names\<close>

lemma name_char_not_white_space: "name_char c \<Longrightarrow> \<not> is_white_space c"
  by (auto simp: name_char_def is_white_space_def Let_def)

lemma name_char_toLowerCase: "name_char c \<Longrightarrow> toLowerCase_char c = c"
  by (auto simp: name_char_def toLowerCase_char_def Let_def)

lemma dropWhile_unchanged: "xs \<noteq> [] \<Longrightarrow> \<not> P (hd xs) \<Longrightarrow> dropWhile P xs = xs"
  by (cases xs) auto

lemma trim_name: "list_all name_char s \<Longrightarrow> trim s = s"
proof (cases "s = []")
  case True
  then show ?thesis by (simp add: trim_def)
next
  case False
  assume a: "list_all name_char s"
  from False a have h: "\<not> is_white_space (hd s)"
    by (cases s) (auto simp: name_char_not_white_space)
  from False a have l: "\<not> is_white_space (last s)"
    by (metis name_char_not_white_space last_in_set list_all_iff)
  have "dropWhile is_white_space s = s"
    using False h by (rule dropWhile_unchanged)
  moreover have "dropWhile is_white_space (rev s) = rev s"
    using False l by (intro dropWhile_unchanged) (auto simp: hd_rev)
  ultimately show ?thesis by (simp add: trim_def)
qed

lemma toLowerCase_name: "list_all name_char s \<Longrightarrow> toLowerCase s = s"
  by (induction s) (auto simp: toLowerCase_def name_char_toLowerCase)

lemma validateShortcutName_Inr_iff:
  "validateShortcutName s = Inr r \<longleftrightarrow>
     r = toLowerCase (trim s) \<and> spec_name_pattern r \<and> r \<notin> set reservedNames"
proof (cases "s = []")
  case True
  then show ?thesis
    by (auto simp: validateShortcutName_def spec_name_pattern_def trim_def toLowerCase_def)
next
  case False
  then show ?thesis
    by (cases "toLowerCase (trim s) = []")
       (auto simp: validateShortcutName_def Let_def spec_name_pattern_def validNamePattern_def
             Suc_le_eq)
qed

text \<open>
  Claim C1, as stated, fails: \<^verbatim>\<open>MySite\<close> does not match \<^verbatim>\<open>[a-z0-9_-]{1,50}\<close>, and
  \<^verbatim>\<open>validateShortcutName\<close> accepts it, since it trims and lower-cases before it tests.
\<close>

theorem validateShortcutName_uppercase_accepted:
  "\<not> spec_name_pattern ''MySite'' \<and> validateShortcutName ''MySite'' = Inr ''mysite''"
  by code_simp

text \<open>
  Claim C1, amended: \<^verbatim>\<open>validateShortcutName\<close> succeeds exactly on the strings whose trimmed,
  lower-cased form matches \<^verbatim>\<open>[a-z0-9_-]{1,50}\<close> and is not reserved, and returns that form;
  on every other string it fails with \<open>InvalidName\<close>. In particular a string that itself
  matches the pattern and is not reserved is accepted and returned as it is.
\<close>

theorem validateShortcutName_normalised:
  "(spec_name_pattern (toLowerCase (trim s)) \<and> toLowerCase (trim s) \<notin> set reservedNames
      \<longrightarrow> validateShortcutName s = Inr (toLowerCase (trim s)))
   \<and> (\<not> (spec_name_pattern (toLowerCase (trim s)) \<and> toLowerCase (trim s) \<notin> set reservedNames)
      \<longrightarrow> (\<exists>fault. validateShortcutName s = Inl (InvalidName fault)))
   \<and> (spec_name_pattern s \<and> s \<notin> set reservedNames \<longrightarrow> validateShortcutName s = Inr s)"
proof (intro conjI impI)
  assume "spec_name_pattern (toLowerCase (trim s)) \<and> toLowerCase (trim s) \<notin> set reservedNames"
  then show "validateShortcutName s = Inr (toLowerCase (trim s))"
    by (simp add: validateShortcutName_Inr_iff)
next
  assume "\<not> (spec_name_pattern (toLowerCase (trim s)) \<and> toLowerCase (trim s) \<notin> set reservedNames)"
  then have "\<forall>r. validateShortcutName s \<noteq> Inr r"
    by (auto simp: validateShortcutName_Inr_iff)
  then show "\<exists>fault. validateShortcutName s = Inl (InvalidName fault)"
    by (auto simp: validateShortcutName_def Let_def split: if_splits)
next
  assume a: "spec_name_pattern s \<and> s \<notin> set reservedNames"
  then have "list_all name_char s" by (simp add: spec_name_pattern_def)
  then have "toLowerCase (trim s) = s" by (simp add: trim_name toLowerCase_name)
  with a show "validateShortcutName s = Inr s"
    by (simp add: validateShortcutName_Inr_iff)
qed

theorem validateShortcutName_normalised_witness:
  "validateShortcutName '' My-Site_2 '' = Inr ''my-site_2''
   \<and> (\<exists>fault. validateShortcutName ''my site'' = Inl (InvalidName fault))
   \<and> (\<exists>fault. validateShortcutName '' List '' = Inl (InvalidName fault))
   \<and> validateShortcutName ''my-site_2'' = Inr ''my-site_2''"
proof -
  have n1: "toLowerCase (trim '' My-Site_2 '') = ''my-site_2''" by code_simp
  have p1: "spec_name_pattern ''my-site_2'' \<and> ''my-site_2'' \<notin> set reservedNames" by code_simp
  have p2: "\<not> (spec_name_pattern (toLowerCase (trim ''my site''))
                \<and> toLowerCase (trim ''my site'') \<notin> set reservedNames)" by code_simp
  have p3: "\<not> (spec_name_pattern (toLowerCase (trim '' List ''))
                \<and> toLowerCase (trim '' List '') \<notin> set reservedNames)" by code_simp
  from validateShortcutName_normalised [of "'' My-Site_2 ''"] n1 p1
  have "validateShortcutName '' My-Site_2 '' = Inr ''my-site_2''" by simp
  moreover from validateShortcutName_normalised [of "''my site''"] p2
  have "\<exists>fault. validateShortcutName ''my site'' = Inl (InvalidName fault)" by blast
  moreover from validateShortcutName_normalised [of "'' List ''"] p3
  have "\<exists>fault. validateShortcutName '' List '' = Inl (InvalidName fault)" by blast
  moreover from validateShortcutName_normalised [of "''my-site_2''"] p1
  have "validateShortcutName ''my-site_2'' = Inr ''my-site_2''" by blast
  ultimately show ?thesis by blast
qed

subsection \<open>URLs\<close>

lemma sublist_dropWhile_hd:
  "sublist xs ys \<Longrightarrow> xs \<noteq> [] \<Longrightarrow> \<not> P (hd xs) \<Longrightarrow> sublist xs (dropWhile P ys)"
proof (induction ys)
  case Nil
  then show ?case by simp
next
  case (Cons y ys)
  show ?case
  proof (cases "P y")
    case True
    with Cons.prems have "\<not> prefix xs (y # ys)" by (cases xs) auto
    with Cons.prems have "sublist xs ys" by (simp add: sublist_Cons_right)
    with Cons True show ?thesis by simp
  next
    case False
    with Cons.prems show ?thesis by simp
  qed
qed

lemma sublist_trim:
  assumes "sublist xs ys" "xs \<noteq> []" "\<not> is_white_space (hd xs)" "\<not> is_white_space (last xs)"
  shows "sublist xs (trim ys)"
proof -
  have "sublist xs (dropWhile is_white_space ys)"
    using assms by (intro sublist_dropWhile_hd)
  then have "sublist (rev xs) (rev (dropWhile is_white_space ys))" by simp
  then have "sublist (rev xs) (dropWhile is_white_space (rev (dropWhile is_white_space ys)))"
    using assms by (intro sublist_dropWhile_hd) (auto simp: hd_rev)
  then show ?thesis unfolding trim_def by (simp add: sublist_rev_left)
qed

lemma is_white_space_canonicalize: "is_white_space (canonicalize c) = is_white_space c"
  by (auto simp: is_white_space_def canonicalize_def Let_def)

lemma canonicalize_toLowerCase:
  "(of_char p :: nat) < 128 \<Longrightarrow> toLowerCase_char c = p \<Longrightarrow> canonicalize c = canonicalize p"
  by (auto simp: toLowerCase_char_def canonicalize_def Let_def split: if_splits)

lemma map_canonicalize_trim: "map canonicalize (trim s) = trim (map canonicalize s)"
proof -
  have "is_white_space \<circ> canonicalize = is_white_space"
    by (rule ext) (simp add: is_white_space_canonicalize)
  then show ?thesis
    by (simp add: trim_def dropWhile_map rev_map)
qed

lemma dangerousPatterns_ends:
  "p \<in> set dangerousPatterns \<Longrightarrow>
     map canonicalize p \<noteq> [] \<and> \<not> is_white_space (hd (map canonicalize p))
     \<and> \<not> is_white_space (last (map canonicalize p))"
  by (auto simp: dangerousPatterns_def canonicalize_def is_white_space_def)

lemma dangerousPatterns_ascii:
  "p \<in> set dangerousPatterns \<Longrightarrow> c \<in> set p \<Longrightarrow> (of_char c :: nat) < 128"
  by (auto simp: dangerousPatterns_def)

lemma test_ci_trim:
  assumes "p \<in> set dangerousPatterns" "test_ci p s"
  shows "test_ci p (trim s)"
  using assms dangerousPatterns_ends [OF assms(1)]
  by (simp add: test_ci_def map_canonicalize_trim sublist_trim)

lemma test_ci_any_case:
  assumes "sublist t s" "toLowerCase t \<in> set dangerousPatterns"
  shows "test_ci (toLowerCase t) s"
proof -
  have "canonicalize (toLowerCase_char c) = canonicalize c" if "c \<in> set t" for c
  proof -
    from that have "toLowerCase_char c \<in> set (toLowerCase t)"
      by (simp add: toLowerCase_def)
    with assms(2) have "(of_char (toLowerCase_char c) :: nat) < 128"
      by (rule dangerousPatterns_ascii)
    then show ?thesis
      by (simp add: canonicalize_toLowerCase [of "toLowerCase_char c" c])
  qed
  then have "map canonicalize (toLowerCase t) = map canonicalize t"
    by (simp add: toLowerCase_def)
  with assms(1) show ?thesis
    by (simp add: test_ci_def map_mono_sublist)
qed

text \<open>
  Claim C2: a string that contains \<^verbatim>\<open>javascript:\<close>, \<^verbatim>\<open>data:\<close>, \<^verbatim>\<open>vbscript:\<close>,
  \<^verbatim>\<open>file:\<close>, \<^verbatim>\<open>about:\<close> or \<^verbatim>\<open>blob:\<close> in any mix of upper and lower case (a contiguous
  run \<open>t\<close> whose lower-cased form is one of the six) is rejected with \<open>DisallowedScheme\<close> by
  the check on the patterns. The parser has no say: the result is the same for every
  parser, also for one that accepts the string as an http(s) URL.
\<close>

theorem validateUrl_dangerous_marker:
  assumes "sublist t urlString" and "toLowerCase t \<in> set dangerousPatterns"
  shows "validateUrl parse urlString = Inl (DisallowedScheme DangerousPattern)"
proof -
  from assms(2) have "t \<noteq> []"
    by (auto simp: dangerousPatterns_def toLowerCase_def)
  with assms(1) have ne: "urlString \<noteq> []" by auto
  have "test_ci (toLowerCase t) (trim urlString)"
    using assms by (intro test_ci_trim test_ci_any_case)
  with assms(2) have "list_ex (\<lambda>p. test_ci p (trim urlString)) dangerousPatterns"
    by (auto simp: list_ex_iff)
  with ne show ?thesis by (simp add: validateUrl_def)
qed

theorem validateUrl_dangerous_marker_witness:
  "sublist ''JavaScript:'' ''  https://example.com/?next=JavaScript:alert(1)''
   \<and> toLowerCase ''JavaScript:'' \<in> set dangerousPatterns
   \<and> validateUrl (\<lambda>s. Some \<lparr>protocol = ''https:'', href = s\<rparr>)
        ''  https://example.com/?next=JavaScript:alert(1)''
       = Inl (DisallowedScheme DangerousPattern)"
proof -
  have 1: "sublist ''JavaScript:'' ''  https://example.com/?next=JavaScript:alert(1)''"
    by code_simp
  have 2: "toLowerCase ''JavaScript:'' \<in> set dangerousPatterns"
    by code_simp
  from 1 2 validateUrl_dangerous_marker [OF 1 2] show ?thesis by simp
qed

text \<open>
  Claim C3: once the input has passed the two earlier checks (it is not empty and holds no
  dangerous pattern), \<^verbatim>\<open>validateUrl\<close> fails with \<open>MalformedUrl\<close> when the parser rejects the
  trimmed input, fails with \<open>DisallowedScheme\<close> when the parsed protocol is neither
  \<^verbatim>\<open>http:\<close> nor \<^verbatim>\<open>https:\<close>, and otherwise returns the \<^verbatim>\<open>href\<close> of the parsed URL, the
  canonical form, not the input. The three examples of the claim pass the earlier checks:
  \<^verbatim>\<open>not a url\<close> gives \<open>MalformedUrl\<close> as soon as the parser rejects it,
  \<^verbatim>\<open>ftp://x.com\<close> gives \<open>DisallowedScheme\<close> as soon as its protocol is \<^verbatim>\<open>ftp:\<close>, and
  \<^verbatim>\<open>https://Example.com/Path\<close> gives the parser's \<^verbatim>\<open>href\<close> as soon as its protocol is
  \<^verbatim>\<open>https:\<close>.
\<close>

theorem validateUrl_parse_outcomes:
  "(urlString \<noteq> [] \<and> \<not> list_ex (\<lambda>pattern. test_ci pattern (trim urlString)) dangerousPatterns
      \<longrightarrow> (parse (trim urlString) = None \<longrightarrow> validateUrl parse urlString = Inl MalformedUrl)
        \<and> (\<forall>u. parse (trim urlString) = Some u \<longrightarrow>
              protocol u \<noteq> ''http:'' \<and> protocol u \<noteq> ''https:'' \<longrightarrow>
              validateUrl parse urlString = Inl (DisallowedScheme NotHttp))
        \<and> (\<forall>u. parse (trim urlString) = Some u \<longrightarrow>
              protocol u = ''http:'' \<or> protocol u = ''https:'' \<longrightarrow>
              validateUrl parse urlString = Inr (href u)))
   \<and> (parse ''not a url'' = None \<longrightarrow> validateUrl parse ''not a url'' = Inl MalformedUrl)
   \<and> (\<forall>u. parse ''ftp://x.com'' = Some u \<longrightarrow> protocol u = ''ftp:'' \<longrightarrow>
         validateUrl parse ''ftp://x.com'' = Inl (DisallowedScheme NotHttp))
   \<and> (\<forall>u. parse ''https://Example.com/Path'' = Some u \<longrightarrow> protocol u = ''https:'' \<longrightarrow>
         validateUrl parse ''https://Example.com/Path'' = Inr (href u))"
proof (intro conjI)
  show "urlString \<noteq> [] \<and> \<not> list_ex (\<lambda>pattern. test_ci pattern (trim urlString)) dangerousPatterns
      \<longrightarrow> (parse (trim urlString) = None \<longrightarrow> validateUrl parse urlString = Inl MalformedUrl)
        \<and> (\<forall>u. parse (trim urlString) = Some u \<longrightarrow>
              protocol u \<noteq> ''http:'' \<and> protocol u \<noteq> ''https:'' \<longrightarrow>
              validateUrl parse urlString = Inl (DisallowedScheme NotHttp))
        \<and> (\<forall>u. parse (trim urlString) = Some u \<longrightarrow>
              protocol u = ''http:'' \<or> protocol u = ''https:'' \<longrightarrow>
              validateUrl parse urlString = Inr (href u))"
    by (auto simp: validateUrl_def)
next
  have t: "trim ''not a url'' = ''not a url''" by code_simp
  have c: "\<not> list_ex (\<lambda>pattern. test_ci pattern ''not a url'') dangerousPatterns" by code_simp
  show "parse ''not a url'' = None \<longrightarrow> validateUrl parse ''not a url'' = Inl MalformedUrl"
    using t c by (simp add: validateUrl_def)
next
  have t: "trim ''ftp://x.com'' = ''ftp://x.com''" by code_simp
  have c: "\<not> list_ex (\<lambda>pattern. test_ci pattern ''ftp://x.com'') dangerousPatterns" by code_simp
  show "\<forall>u. parse ''ftp://x.com'' = Some u \<longrightarrow> protocol u = ''ftp:'' \<longrightarrow>
         validateUrl parse ''ftp://x.com'' = Inl (DisallowedScheme NotHttp)"
    using t c by (simp add: validateUrl_def)
next
  have t: "trim ''https://Example.com/Path'' = ''https://Example.com/Path''" by code_simp
  have c: "\<not> list_ex (\<lambda>pattern. test_ci pattern ''https://Example.com/Path'') dangerousPatterns"
    by code_simp
  show "\<forall>u. parse ''https://Example.com/Path'' = Some u \<longrightarrow> protocol u = ''https:'' \<longrightarrow>
         validateUrl parse ''https://Example.com/Path'' = Inr (href u)"
    using t c by (simp add: validateUrl_def)
qed

theorem validateUrl_parse_outcomes_witness:
  "validateUrl sample_parse ''not a url'' = Inl MalformedUrl
   \<and> validateUrl sample_parse ''ftp://x.com'' = Inl (DisallowedScheme NotHttp)
   \<and> validateUrl sample_parse ''https://Example.com/Path'' = Inr ''https://example.com/Path''
   \<and> validateUrl sample_parse '' https://evil.example '' = Inr ''https://evil.example/''"
proof -
  have a: "sample_parse ''not a url'' = None" by code_simp
  have b: "sample_parse ''ftp://x.com'' = Some \<lparr>protocol = ''ftp:'', href = ''ftp://x.com/''\<rparr>"
    by code_simp
  have c: "sample_parse ''https://Example.com/Path''
             = Some \<lparr>protocol = ''https:'', href = ''https://example.com/Path''\<rparr>"
    by code_simp
  have d: "'' https://evil.example '' \<noteq> []
           \<and> \<not> list_ex (\<lambda>pattern. test_ci pattern (trim '' https://evil.example '')) dangerousPatterns"
    by code_simp
  have e: "sample_parse (trim '' https://evil.example '')
             = Some \<lparr>protocol = ''https:'', href = ''https://evil.example/''\<rparr>"
    by code_simp
  from validateUrl_parse_outcomes [of "'' https://evil.example ''" sample_parse] a b c d e
  show ?thesis by simp
qed

section \<open>Properties of the configuration store\<close>

text \<open>
  \<^verbatim>\<open>loadConfig\<close> case by case. It has no failing outcome. A missing file gives the defaults
  without a warning; a failure of the read or of \<^verbatim>\<open>JSON.parse\<close> is caught and gives the
  defaults with a warning, and so does a parsed value that fails the test of the source
  (\<^verbatim>\<open>typeof\<close> is not \<^verbatim>\<open>'object'\<close>, or it is \<^verbatim>\<open>null\<close>). A value that passes the test is
  never rejected and gives no warning: \<^verbatim>\<open>customShortcuts\<close> is the table of the document, or
  the empty table when the document has none, and the browser is the \<^verbatim>\<open>settings.browser\<close>
  of the document, or \<^verbatim>\<open>default\<close> when \<^verbatim>\<open>settings\<close> or its \<^verbatim>\<open>browser\<close> is missing, each
  on its own. An array passes the test and has neither field.
\<close>

lemma loadConfig_degrades_to_defaults:
  "loadConfig Missing = (defaultConfig, [])
   \<and> (f \<noteq> Missing \<and> (\<exists>e. read_and_parse f = Inl e) \<longrightarrow> loadConfig f = (defaultConfig, [CouldNotRead]))
   \<and> (\<not> is_object v \<longrightarrow> loadConfig (Json v) = (defaultConfig, [InvalidFormat]))
   \<and> loadConfig (Json (JArr xs)) = (defaultConfig, [])
   \<and> (is_object v \<longrightarrow>
        snd (loadConfig (Json v)) = []
        \<and> (get_field v ''customShortcuts'' = None \<longrightarrow>
              customShortcuts (fst (loadConfig (Json v))) = JObj [])
        \<and> (\<forall>cs. get_field v ''customShortcuts'' = Some cs \<and> truthy cs \<longrightarrow>
              customShortcuts (fst (loadConfig (Json v))) = cs)
        \<and> (get_field v ''settings'' = None \<longrightarrow>
              browser (settings (fst (loadConfig (Json v)))) = JStr ''default'')
        \<and> (\<forall>st. get_field v ''settings'' = Some st \<and> get_field st ''browser'' = None \<longrightarrow>
              browser (settings (fst (loadConfig (Json v)))) = JStr ''default'')
        \<and> (\<forall>st b. get_field v ''settings'' = Some st \<and> get_field st ''browser'' = Some b \<and> truthy b \<longrightarrow>
              browser (settings (fst (loadConfig (Json v)))) = b))"
  by (cases f) (auto simp: loadConfig_def or_default_def defaultConfig_def)

lemma loadConfig_degrades_to_defaults_examples:
  "loadConfig Unreadable = (defaultConfig, [CouldNotRead])
   \<and> loadConfig (Json (JStr ''oops'')) = (defaultConfig, [InvalidFormat])
   \<and> loadConfig (Json (JObj [(''settings'', JObj [(''browser'', JStr ''firefox'')])]))
       = (\<lparr>customShortcuts = JObj [], settings = \<lparr>browser = JStr ''firefox''\<rparr>\<rparr>, [])
   \<and> loadConfig (Json (JObj [(''customShortcuts'', JObj [(''blog'', JStr ''https://blog.example/'')]),
                             (''settings'', JObj [])]))
       = (\<lparr>customShortcuts = JObj [(''blog'', JStr ''https://blog.example/'')],
           settings = \<lparr>browser = JStr ''default''\<rparr>\<rparr>, [])
   \<and> loadConfig (Json (JObj [(''customShortcuts'', JObj [(''blog'', JStr ''https://blog.example/'')])]))
       = (\<lparr>customShortcuts = JObj [(''blog'', JStr ''https://blog.example/'')],
           settings = \<lparr>browser = JStr ''default''\<rparr>\<rparr>, [])"
proof -
  let ?a = "JObj [(''settings'', JObj [(''browser'', JStr ''firefox'')])]"
  let ?b = "JObj [(''customShortcuts'', JObj [(''blog'', JStr ''https://blog.example/'')]),
                  (''settings'', JObj [])]"
  let ?c = "JObj [(''customShortcuts'', JObj [(''blog'', JStr ''https://blog.example/'')])]"
  have u: "Unreadable \<noteq> Missing \<and> (\<exists>e. read_and_parse Unreadable = Inl e)" by simp
  have s: "\<not> is_object (JStr ''oops'')" by simp
  have a: "is_object ?a \<and> get_field ?a ''customShortcuts'' = None
           \<and> get_field ?a ''settings'' = Some (JObj [(''browser'', JStr ''firefox'')])
           \<and> get_field (JObj [(''browser'', JStr ''firefox'')]) ''browser'' = Some (JStr ''firefox'')
           \<and> truthy (JStr ''firefox'')"
    by code_simp
  have b: "is_object ?b
           \<and> get_field ?b ''customShortcuts'' = Some (JObj [(''blog'', JStr ''https://blog.example/'')])
           \<and> truthy (JObj [(''blog'', JStr ''https://blog.example/'')])
           \<and> get_field ?b ''settings'' = Some (JObj [])
           \<and> get_field (JObj []) ''browser'' = None"
    by code_simp
  have c: "is_object ?c
           \<and> get_field ?c ''customShortcuts'' = Some (JObj [(''blog'', JStr ''https://blog.example/'')])
           \<and> truthy (JObj [(''blog'', JStr ''https://blog.example/'')])
           \<and> get_field ?c ''settings'' = None"
    by code_simp
  have pair: "p = (x, ws)" if "fst p = x" "snd p = ws" for p :: "config \<times> warning list" and x ws
    using that by auto
  have eq: "cfg = \<lparr>customShortcuts = cs, settings = \<lparr>browser = br\<rparr>\<rparr>"
    if "customShortcuts cfg = cs" "browser (settings cfg) = br" for cfg cs br
    using that by (cases cfg, cases "settings cfg") auto
  from loadConfig_degrades_to_defaults [of Unreadable "JStr ''oops''" "[]"] u s
  have 1: "loadConfig Unreadable = (defaultConfig, [CouldNotRead])"
    and 2: "loadConfig (Json (JStr ''oops'')) = (defaultConfig, [InvalidFormat])"
    by blast+
  from loadConfig_degrades_to_defaults [of Unreadable ?a "[]"] a
  have a1: "snd (loadConfig (Json ?a)) = []"
    and a2: "customShortcuts (fst (loadConfig (Json ?a))) = JObj []"
    and a3: "browser (settings (fst (loadConfig (Json ?a)))) = JStr ''firefox''"
    by simp_all
  have 3: "loadConfig (Json ?a)
       = (\<lparr>customShortcuts = JObj [], settings = \<lparr>browser = JStr ''firefox''\<rparr>\<rparr>, [])"
    by (rule pair [OF eq [OF a2 a3] a1])
  from loadConfig_degrades_to_defaults [of Unreadable ?b "[]"] b
  have b1: "snd (loadConfig (Json ?b)) = []"
    and b2: "customShortcuts (fst (loadConfig (Json ?b))) = JObj [(''blog'', JStr ''https://blog.example/'')]"
    and b3: "browser (settings (fst (loadConfig (Json ?b)))) = JStr ''default''"
    by simp_all
  have 4: "loadConfig (Json ?b)
       = (\<lparr>customShortcuts = JObj [(''blog'', JStr ''https://blog.example/'')],
           settings = \<lparr>browser = JStr ''default''\<rparr>\<rparr>, [])"
    by (rule pair [OF eq [OF b2 b3] b1])
  from loadConfig_degrades_to_defaults [of Unreadable ?c "[]"] c
  have c1: "snd (loadConfig (Json ?c)) = []"
    and c2: "customShortcuts (fst (loadConfig (Json ?c))) = JObj [(''blog'', JStr ''https://blog.example/'')]"
    and c3: "browser (settings (fst (loadConfig (Json ?c)))) = JStr ''default''"
    by simp_all
  have 5: "loadConfig (Json ?c)
       = (\<lparr>customShortcuts = JObj [(''blog'', JStr ''https://blog.example/'')],
           settings = \<lparr>browser = JStr ''default''\<rparr>\<rparr>, [])"
    by (rule pair [OF eq [OF c2 c3] c1])
  from 1 2 3 4 5 show ?thesis by blast
qed

text \<open>
  Claim C6 holds in every case but one. The document is a JSON object; a file whose content
  is a JSON array, such as \<^verbatim>\<open>[1, 2]\<close>, cannot be parsed as one, and the claim has
  \<^verbatim>\<open>loadConfig\<close> print a warning and return the defaults. The test of the source,
  \<^verbatim>\<open>typeof config !== 'object' || config === null\<close>, sends numbers, strings, booleans and
  \<^verbatim>\<open>null\<close> to the warning, but an array is of type \<^verbatim>\<open>'object'\<close>: it passes, and
  \<^verbatim>\<open>loadConfig\<close> returns the defaults without any warning.
\<close>

theorem loadConfig_array_without_warning:
  "loadConfig (Json (JArr [JNum 1, JNum 2])) = (defaultConfig, [])
   \<and> loadConfig (Json JNull) = (defaultConfig, [InvalidFormat])
   \<and> loadConfig (Json (JNum 1)) = (defaultConfig, [InvalidFormat])
   \<and> loadConfig (Json (JStr ''[1, 2]'')) = (defaultConfig, [InvalidFormat])
   \<and> loadConfig NotJson = (defaultConfig, [CouldNotRead])"
  by code_simp

section \<open>Properties of \<^verbatim>\<open>add\<close> and \<^verbatim>\<open>remove\<close>\<close>

lemma built_in_names_valid:
  "list_all (\<lambda>k. validateShortcutName k = Inr k) (map fst BUILT_IN_SHORTCUTS)"
  by code_simp

lemma validateShortcutName_built_in: "is_built_in k \<Longrightarrow> validateShortcutName k = Inr k"
  using built_in_names_valid by (auto simp: is_built_in_def list_all_iff)

text \<open>
  Claim C5: for a name whose validated form is a built-in key, \<^verbatim>\<open>add\<close> with a valid URL
  fails with \<open>BuiltInConflict\<close>, \<^verbatim>\<open>add\<close> with any URL at all fails, and \<^verbatim>\<open>remove\<close>
  fails with \<open>BuiltInConflict\<close>; each time the disk is left as it was. (The name and the
  URL are validated first, so an invalid URL is reported as such; every built-in key is a
  valid name, by \<open>validateShortcutName_built_in\<close>.)
\<close>

theorem built_in_shortcuts_immutable:
  "validateShortcutName nm = Inr k \<and> is_built_in k \<longrightarrow>
     (\<forall>u vu. validateUrl parse u = Inr vu \<longrightarrow> add_cmd parse d nm u = (Inl BuiltInConflict, d))
     \<and> (\<forall>u. \<exists>e. add_cmd parse d nm u = (Inl e, d))
     \<and> remove_cmd d nm = (Inl BuiltInConflict, d)"
  by (auto simp: add_cmd_def remove_cmd_def split: sum.splits)

theorem built_in_shortcuts_immutable_witness:
  "add_cmd sample_parse \<lparr>content = Json (JObj []), writable = True\<rparr> ''github'' ''https://evil.example''
     = (Inl BuiltInConflict, \<lparr>content = Json (JObj []), writable = True\<rparr>)
   \<and> (\<exists>e. add_cmd sample_parse \<lparr>content = Json (JObj []), writable = True\<rparr> ''github'' ''not a url''
          = (Inl e, \<lparr>content = Json (JObj []), writable = True\<rparr>))
   \<and> remove_cmd \<lparr>content = Json (JObj []), writable = True\<rparr> ''youtube''
     = (Inl BuiltInConflict, \<lparr>content = Json (JObj []), writable = True\<rparr>)"
proof -
  let ?d = "\<lparr>content = Json (JObj []), writable = True\<rparr>"
  have g: "validateShortcutName ''github'' = Inr ''github'' \<and> is_built_in ''github''"
    by code_simp
  have y: "validateShortcutName ''youtube'' = Inr ''youtube'' \<and> is_built_in ''youtube''"
    by code_simp
  have u: "validateUrl sample_parse ''https://evil.example'' = Inr ''https://evil.example/''"
    by code_simp
  from built_in_shortcuts_immutable [of "''github''" "''github''" sample_parse ?d] g u
  have 1: "add_cmd sample_parse ?d ''github'' ''https://evil.example'' = (Inl BuiltInConflict, ?d)"
    by blast
  from built_in_shortcuts_immutable [of "''github''" "''github''" sample_parse ?d] g
  have 2: "\<exists>e. add_cmd sample_parse ?d ''github'' ''not a url'' = (Inl e, ?d)"
    by blast
  from built_in_shortcuts_immutable [of "''youtube''" "''youtube''" sample_parse ?d] y
  have 3: "remove_cmd ?d ''youtube'' = (Inl BuiltInConflict, ?d)"
    by blast
  from 1 2 3 show ?thesis by blast
qed

subsection \<open>Adding a shortcut and looking it up\<close>

lemma put_property_member: "(k, v) \<in> set (put_property k v kvs)"
proof (cases "k \<in> set (map fst kvs)")
  case True
  then obtain w where "(k, w) \<in> set kvs" by auto
  then have "(k, v) \<in> (\<lambda>p. if fst p = k then (k, v) else p) ` set kvs"
    by (rule rev_image_eqI) simp
  with True show ?thesis
    by (simp add: put_property_def)
next
  case False
  have "(k, v) \<in> set (insert_property k v kvs)"
    by (induction kvs) auto
  with False show ?thesis
    by (simp add: put_property_def)
qed

lemma put_property_key: "k \<in> fst ` set (put_property k v kvs)"
  using put_property_member [of k v kvs] by (rule rev_image_eqI) simp

lemma insert_property_set: "set (insert_property k v ps) = insert (k, v) (set ps)"
  by (induction ps) auto

lemma put_property_value: "(k, w) \<in> set (put_property k v kvs) \<Longrightarrow> w = v"
  by (auto simp: put_property_def insert_property_set image_iff split: if_splits)

lemma map_of_rev_append_last:
  assumes "k \<in> fst ` set B" and "\<And>w. (k, w) \<in> set B \<Longrightarrow> w = v"
  shows "map_of (rev (A @ B)) k = Some v"
proof -
  from assms(1) have "k \<in> fst ` set (rev B)" by simp
  then obtain w where w: "map_of (rev B) k = Some w"
    by (metis map_of_eq_None_iff not_None_eq)
  then have "(k, w) \<in> set B" by (auto dest: map_of_SomeD)
  with assms(2) have "w = v" by blast
  with w show ?thesis by (simp add: map_add_def)
qed

lemma loadConfig_saved:
  "truthy (customShortcuts c) \<Longrightarrow>
     customShortcuts (fst (loadConfig (Json (config_json c)))) = customShortcuts c"
  by (simp add: loadConfig_def config_json_def or_default_def)

lemma add_then_lookup:
  assumes "validateShortcutName nm = Inr k" and "validateUrl parse u = Inr vu"
    and "\<not> is_built_in k" and "k \<noteq> ''__proto__''" and "writable d"
    and "customShortcuts (fst (loadConfig (content d))) = JObj kvs"
  shows "\<exists>d'. add_cmd parse d nm u = (Inr (k, vu), d')
           \<and> lookup_shortcut (content d') nm = Inr (JStr vu)"
proof -
  let ?cfg = "fst (loadConfig (content d))"
  let ?cs = "JObj (put_property k (JStr vu) kvs)"
  let ?d' = "d\<lparr>content := Json (config_json (?cfg\<lparr>customShortcuts := ?cs\<rparr>))\<rparr>"
  have a: "add_cmd parse d nm u = (Inr (k, vu), ?d')"
    using assms by (simp add: add_cmd_def Let_def saveConfig_def)
  have "customShortcuts (fst (loadConfig (content ?d'))) = ?cs"
    by (simp add: loadConfig_saved)
  then have "getAllShortcuts (content ?d') k = Some (JStr vu)"
    using put_property_key [of k "JStr vu" kvs] put_property_value [of k _ "JStr vu" kvs]
    by (simp add: getAllShortcuts_def Let_def map_of_rev_append_last del: rev_append)
  with assms(1) have "lookup_shortcut (content ?d') nm = Inr (JStr vu)"
    by (simp add: lookup_shortcut_def)
  with a show ?thesis by blast
qed

text \<open>
  Claim C4 holds for every valid name but one. \<open>add_then_lookup\<close> above is the round
  trip: when the custom table on disk is an object (or absent) and the disk is writable,
  \<^verbatim>\<open>add\<close> of a valid name other than \<^verbatim>\<open>__proto__\<close> that is not built in, with a valid
  URL, succeeds, and the lookup of the name then gives the canonical URL.

  The name \<^verbatim>\<open>__proto__\<close> is valid (underscores and lower-case letters) and not built in.
  On a fresh disk \<^verbatim>\<open>add\<close> reports success for it, but the assignment
  \<^verbatim>\<open>config.customShortcuts['__proto__'] = validatedUrl\<close> reaches the inherited setter and
  stores nothing: the saved document has no custom shortcut, and the lookup of the name
  fails with \<open>NotFound\<close>.
\<close>

theorem add_proto_shortcut_is_lost:
  "validateShortcutName ''__proto__'' = Inr ''__proto__''
   \<and> \<not> is_built_in ''__proto__''
   \<and> validateUrl sample_parse ''https://example.com'' = Inr ''https://example.com/''
   \<and> add_cmd sample_parse \<lparr>content = Missing, writable = True\<rparr> ''__proto__'' ''https://example.com''
       = (Inr (''__proto__'', ''https://example.com/''),
          \<lparr>content = Json (JObj [(''customShortcuts'', JObj []),
                                  (''settings'', JObj [(''browser'', JStr ''default'')])]),
            writable = True\<rparr>)
   \<and> lookup_shortcut
         (Json (JObj [(''customShortcuts'', JObj []),
                      (''settings'', JObj [(''browser'', JStr ''default'')])]))
         ''__proto__''
       = Inl NotFound"
  by code_simp

section \<open>Properties of \<^verbatim>\<open>list\<close>\<close>

lemma length_insert_sorted: "length (insert_sorted c x ys) = Suc (length ys)"
  by (induction ys) auto

lemma length_array_sort: "length (array_sort c xs) = length xs"
  by (induction xs) (auto simp: array_sort_def length_insert_sorted)

lemma set_insert_sorted: "set (insert_sorted c x ys) = insert x (set ys)"
  by (induction ys) auto

lemma sorted_wrt_insert_sorted:
  assumes total: "\<And>a b. c a b \<le> 0 \<or> c b a \<le> 0"
    and trans: "\<And>a b d. c a b \<le> 0 \<Longrightarrow> c b d \<le> 0 \<Longrightarrow> c a d \<le> 0"
    and "sorted_wrt (\<lambda>a b. c a b \<le> 0) ys"
  shows "sorted_wrt (\<lambda>a b. c a b \<le> 0) (insert_sorted c x ys)"
  using assms(3)
proof (induction ys)
  case Nil
  then show ?case by simp
next
  case (Cons y ys)
  show ?case
  proof (cases "c x y \<le> 0")
    case True
    with Cons.prems trans show ?thesis by auto
  next
    case False
    with total have "c y x \<le> 0" by blast
    with False Cons show ?thesis by (auto simp: set_insert_sorted)
  qed
qed

lemma sorted_wrt_array_sort:
  assumes "\<And>a b. c a b \<le> 0 \<or> c b a \<le> 0"
    and "\<And>a b d. c a b \<le> 0 \<Longrightarrow> c b d \<le> 0 \<Longrightarrow> c a d \<le> 0"
  shows "sorted_wrt (\<lambda>a b. c a b \<le> 0) (array_sort c xs)"
proof (induction xs)
  case Nil
  then show ?case by (simp add: array_sort_def)
next
  case (Cons x xs)
  have "array_sort c (x # xs) = insert_sorted c x (array_sort c xs)"
    by (simp add: array_sort_def)
  with Cons assms show ?case
    by (simp add: sorted_wrt_insert_sorted)
qed

lemma root_collation_le:
  "root_collation a b \<le> 0 \<longleftrightarrow> map collation_weight a \<le> map collation_weight b"
  by (induction a b rule: root_collation.induct) auto

lemma root_collation_sym: "root_collation a b \<le> 0 \<or> root_collation b a \<le> 0"
  unfolding root_collation_le by (rule linear)

lemma root_collation_trans:
  "root_collation a b \<le> 0 \<Longrightarrow> root_collation b d \<le> 0 \<Longrightarrow> root_collation a d \<le> 0"
  unfolding root_collation_le by (rule order_trans)

text \<open>
  Claim C7, as stated, fails where it says that the rows are sorted lexicographically: the
  rows are sorted by \<^verbatim>\<open>localeCompare\<close>. Under the root collation the custom names
  \<^verbatim>\<open>a_\<close> and \<^verbatim>\<open>a1\<close> come in this order, and in the lexicographic order of the code
  units \<^verbatim>\<open>a1\<close> is the smaller one.
\<close>

theorem list_cmd_not_code_unit_sorted:
  "\<not> sorted (map fst (list_cmd root_collation
       (Json (JObj [(''customShortcuts'',
                     JObj [(''a1'', JStr ''https://one.example/''),
                           (''a_'', JStr ''https://two.example/'')])]))
       False False))"
  by code_simp

text \<open>
  Claim C7, amended: for every configuration file, \<^verbatim>\<open>list\<close> without a filter flag has as
  many rows as there are built-in shortcuts plus entries of the loaded custom table, and
  the rows are in the order of \<^verbatim>\<open>localeCompare\<close> on their names: for a comparison that is
  total and transitive, no row is followed by a row whose name compares smaller.
\<close>

theorem list_cmd_count_and_order:
  "length (list_cmd cmp f False False)
     = length BUILT_IN_SHORTCUTS + length (object_entries (customShortcuts (fst (loadConfig f))))
   \<and> ((\<forall>a b. cmp a b \<le> 0 \<or> cmp b a \<le> 0)
        \<and> (\<forall>a b c. cmp a b \<le> 0 \<and> cmp b c \<le> 0 \<longrightarrow> cmp a c \<le> 0)
      \<longrightarrow> sorted_wrt (\<lambda>r r'. cmp (fst r) (fst r') \<le> 0) (list_cmd cmp f False False))"
proof (intro conjI impI)
  show "length (list_cmd cmp f False False)
     = length BUILT_IN_SHORTCUTS + length (object_entries (customShortcuts (fst (loadConfig f))))"
    by (simp add: list_cmd_def Let_def length_array_sort)
next
  assume h: "(\<forall>a b. cmp a b \<le> 0 \<or> cmp b a \<le> 0)
        \<and> (\<forall>a b c. cmp a b \<le> 0 \<and> cmp b c \<le> 0 \<longrightarrow> cmp a c \<le> 0)"
  let ?c = "\<lambda>a b :: row. cmp (fst a) (fst b)"
  have "sorted_wrt (\<lambda>a b. ?c a b \<le> 0) (array_sort ?c xs)" for xs
    using h by (intro sorted_wrt_array_sort) blast+
  then show "sorted_wrt (\<lambda>r r'. cmp (fst r) (fst r') \<le> 0) (list_cmd cmp f False False)"
    by (simp add: list_cmd_def Let_def)
qed

theorem list_cmd_count_and_order_witness:
  "length (list_cmd root_collation
             (Json (JObj [(''customShortcuts'',
                           JObj [(''a1'', JStr ''https://one.example/''),
                                 (''a_'', JStr ''https://two.example/'')])]))
             False False) = 52 + 2
   \<and> sorted_wrt (\<lambda>r r'. root_collation (fst r) (fst r') \<le> 0)
        (list_cmd root_collation
             (Json (JObj [(''customShortcuts'',
                           JObj [(''a1'', JStr ''https://one.example/''),
                                 (''a_'', JStr ''https://two.example/'')])]))
             False False)"
proof -
  let ?f = "Json (JObj [(''customShortcuts'',
                           JObj [(''a1'', JStr ''https://one.example/''),
                                 (''a_'', JStr ''https://two.example/'')])])"
  have h: "(\<forall>a b. root_collation a b \<le> 0 \<or> root_collation b a \<le> 0)
        \<and> (\<forall>a b c. root_collation a b \<le> 0 \<and> root_collation b c \<le> 0 \<longrightarrow> root_collation a c \<le> 0)"
  proof (intro conjI allI impI)
    fix a b show "root_collation a b \<le> 0 \<or> root_collation b a \<le> 0"
      by (rule root_collation_sym)
  next
    fix a b c assume "root_collation a b \<le> 0 \<and> root_collation b c \<le> 0"
    then show "root_collation a c \<le> 0"
      using root_collation_trans by blast
  qed
  have n: "length BUILT_IN_SHORTCUTS = 52" by code_simp
  have m: "length (object_entries (customShortcuts (fst (loadConfig ?f)))) = 2" by code_simp
  note t = list_cmd_count_and_order [of root_collation ?f]
  from t have "length (list_cmd root_collation ?f False False)
      = length BUILT_IN_SHORTCUTS + length (object_entries (customShortcuts (fst (loadConfig ?f))))"
    by (rule conjunct1)
  then have l: "length (list_cmd root_collation ?f False False) = 52 + 2"
    by (simp only: n m)
  from t h have "sorted_wrt (\<lambda>r r'. root_collation (fst r) (fst r') \<le> 0)
        (list_cmd root_collation ?f False False)"
    by (rule conjunct2 [THEN mp])
  with l show ?thesis by (rule conjI)
qed

section \<open>Properties of \<^verbatim>\<open>search\<close>\<close>

text \<open>
  Claim C8: when the joined and trimmed query has 600 characters, \<^verbatim>\<open>search\<close> fails with
  the length error, whatever the engine option, the encoder and the configuration are: the
  engine is not looked up, the query is not encoded, no URL is built and nothing is opened.
\<close>

theorem search_cmd_long_query:
  "length (trim (join '' '' queryParts)) = 600 \<longrightarrow>
     search_cmd encodeURIComponent os_open f queryParts incognito engine_option = failed QueryTooLong
     \<and> opened (search_cmd encodeURIComponent os_open f queryParts incognito engine_option) = []"
  by (auto simp: search_cmd_def Let_def failed_def)

theorem search_cmd_long_query_witness:
  "length (trim (join '' '' [replicate 300 CHR ''a'', replicate 299 CHR ''b''])) = 600
   \<and> search_cmd Some (\<lambda>call. True) Missing [replicate 300 CHR ''a'', replicate 299 CHR ''b'']
        False ''nosuchengine''
       = failed QueryTooLong"
proof -
  have l: "length (trim (join '' '' [replicate 300 CHR ''a'', replicate 299 CHR ''b''])) = 600"
    by code_simp
  from search_cmd_long_query
         [of "[replicate 300 CHR ''a'', replicate 299 CHR ''b'']" Some "\<lambda>call. True" Missing
             False "''nosuchengine''"] l
  show ?thesis by blast
qed

section \<open>Properties of the launch\<close>

lemma opened_openUrl:
  "opened (openUrl os_open f u incognito) =
     (case openOptions (fst (loadConfig f)) incognito of
        Inl e \<Rightarrow> []
      | Inr (a, ns) \<Rightarrow> [\<lparr>target = u, app = a\<rparr>])"
  by (cases "loadConfig f") (auto simp: openUrl_def split: sum.splits)

lemma notices_openUrl:
  "notices (openUrl os_open f u incognito) =
     (case openOptions (fst (loadConfig f)) incognito of
        Inl e \<Rightarrow> []
      | Inr (a, ns) \<Rightarrow> ns)"
  by (cases "loadConfig f") (auto simp: openUrl_def split: sum.splits)

lemma openOptions_string:
  "browser (settings config) = JStr b \<Longrightarrow>
     openOptions config incognito =
       (case BROWSERS_get b of
             Some browserApp \<Rightarrow>
               if incognito then
                 (case incognitoArgs_get browserApp of
                    Some (a # as) \<Rightarrow>
                      Inr (Some \<lparr>app_name = browserApp, app_arguments = Some (a # as)\<rparr>, [])
                  | _ \<Rightarrow>
                      Inr (Some \<lparr>app_name = browserApp, app_arguments = None\<rparr>,
                           if browserApp = AppName ''safari'' then [SafariNoPrivateMode] else []))
               else Inr (Some \<lparr>app_name = browserApp, app_arguments = None\<rparr>, [])
           | None \<Rightarrow> Inr (None, if incognito then [DefaultBrowserIncognito] else []))"
  by (simp add: openOptions_def)

lemma BROWSERS_get_values:
  "BROWSERS_get ''default'' = None"
  "BROWSERS_get ''chrome'' = Some (AppName ''chrome'')"
  "BROWSERS_get ''firefox'' = Some (AppName ''firefox'')"
  "BROWSERS_get ''safari'' = Some (AppName ''safari'')"
  "BROWSERS_get ''edge'' = Some (AppName ''msedge'')"
  "BROWSERS_get ''brave'' = Some (AppName ''brave'')"
  "BROWSERS_get ''opera'' = Some (AppName ''opera'')"
  by code_simp+

lemma incognitoArgs_get_values:
  "incognitoArgs_get (AppName ''chrome'') = Some [''--incognito'']"
  "incognitoArgs_get (AppName ''firefox'') = Some [''--private-window'']"
  "incognitoArgs_get (AppName ''safari'') = Some []"
  "incognitoArgs_get (AppName ''msedge'') = Some [''--inprivate'']"
  "incognitoArgs_get (AppName ''brave'') = Some [''--incognito'']"
  "incognitoArgs_get (AppName ''opera'') = Some [''--private'']"
  by code_simp+

lemma openOptions_default:
  "browser (settings config) = JStr ''default'' \<Longrightarrow>
     openOptions config incognito = Inr (None, if incognito then [DefaultBrowserIncognito] else [])"
  by (simp add: openOptions_string BROWSERS_get_values)

lemma openOptions_incognito:
  "browser (settings config) = JStr ''chrome'' \<Longrightarrow> openOptions config True
     = Inr (Some \<lparr>app_name = AppName ''chrome'', app_arguments = Some [''--incognito'']\<rparr>, [])"
  "browser (settings config) = JStr ''firefox'' \<Longrightarrow> openOptions config True
     = Inr (Some \<lparr>app_name = AppName ''firefox'', app_arguments = Some [''--private-window'']\<rparr>, [])"
  "browser (settings config) = JStr ''edge'' \<Longrightarrow> openOptions config True
     = Inr (Some \<lparr>app_name = AppName ''msedge'', app_arguments = Some [''--inprivate'']\<rparr>, [])"
  "browser (settings config) = JStr ''brave'' \<Longrightarrow> openOptions config True
     = Inr (Some \<lparr>app_name = AppName ''brave'', app_arguments = Some [''--incognito'']\<rparr>, [])"
  "browser (settings config) = JStr ''opera'' \<Longrightarrow> openOptions config True
     = Inr (Some \<lparr>app_name = AppName ''opera'', app_arguments = Some [''--private'']\<rparr>, [])"
  "browser (settings config) = JStr ''safari'' \<Longrightarrow> openOptions config True
     = Inr (Some \<lparr>app_name = AppName ''safari'', app_arguments = None\<rparr>, [SafariNoPrivateMode])"
  by (simp_all add: openOptions_string BROWSERS_get_values incognitoArgs_get_values
        del: incognitoArgs_get.simps)

lemma openOptions_unsupported_string:
  assumes "browser (settings config) = JStr b"
    and "b \<notin> set (map fst BROWSERS)" and "b \<notin> set object_prototype_keys"
  shows "openOptions config incognito
           = Inr (None, if incognito then [DefaultBrowserIncognito] else [])"
proof -
  from assms(2) have "map_of BROWSERS b = None"
    by (simp add: map_of_eq_None_iff)
  with assms(3) have "BROWSERS_get b = None"
    by (simp add: BROWSERS_get_def)
  with assms(1) show ?thesis
    by (simp add: openOptions_def)
qed

text \<open>
  Claim C9: with the browser setting \<^verbatim>\<open>default\<close> the call of the OS-open facility has no
  app, and a request for incognito adds nothing to the call but prints the notice. With a
  concrete browser and incognito requested, the call names the app with the flag of the
  table: \<^verbatim>\<open>chrome\<close> \<^verbatim>\<open>--incognito\<close>, \<^verbatim>\<open>firefox\<close> \<^verbatim>\<open>--private-window\<close>, \<^verbatim>\<open>edge\<close> (app
  \<^verbatim>\<open>msedge\<close>) \<^verbatim>\<open>--inprivate\<close>, \<^verbatim>\<open>brave\<close> \<^verbatim>\<open>--incognito\<close>, \<^verbatim>\<open>opera\<close> \<^verbatim>\<open>--private\<close>;
  \<^verbatim>\<open>safari\<close> gets no flag and the notice.
\<close>

theorem openUrl_launch_instruction:
  "browser (settings (fst (loadConfig f))) = JStr b \<longrightarrow>
     (b = ''default'' \<longrightarrow>
        opened (openUrl os_open f u incognito) = [\<lparr>target = u, app = None\<rparr>]
        \<and> notices (openUrl os_open f u incognito)
            = (if incognito then [DefaultBrowserIncognito] else []))
   \<and> (b = ''chrome'' \<longrightarrow>
        opened (openUrl os_open f u True)
          = [\<lparr>target = u, app = Some \<lparr>app_name = AppName ''chrome'', app_arguments = Some [''--incognito'']\<rparr>\<rparr>]
        \<and> notices (openUrl os_open f u True) = [])
   \<and> (b = ''firefox'' \<longrightarrow>
        opened (openUrl os_open f u True)
          = [\<lparr>target = u, app = Some \<lparr>app_name = AppName ''firefox'', app_arguments = Some [''--private-window'']\<rparr>\<rparr>]
        \<and> notices (openUrl os_open f u True) = [])
   \<and> (b = ''edge'' \<longrightarrow>
        opened (openUrl os_open f u True)
          = [\<lparr>target = u, app = Some \<lparr>app_name = AppName ''msedge'', app_arguments = Some [''--inprivate'']\<rparr>\<rparr>]
        \<and> notices (openUrl os_open f u True) = [])
   \<and> (b = ''brave'' \<longrightarrow>
        opened (openUrl os_open f u True)
          = [\<lparr>target = u, app = Some \<lparr>app_name = AppName ''brave'', app_arguments = Some [''--incognito'']\<rparr>\<rparr>]
        \<and> notices (openUrl os_open f u True) = [])
   \<and> (b = ''opera'' \<longrightarrow>
        opened (openUrl os_open f u True)
          = [\<lparr>target = u, app = Some \<lparr>app_name = AppName ''opera'', app_arguments = Some [''--private'']\<rparr>\<rparr>]
        \<and> notices (openUrl os_open f u True) = [])
   \<and> (b = ''safari'' \<longrightarrow>
        opened (openUrl os_open f u True)
          = [\<lparr>target = u, app = Some \<lparr>app_name = AppName ''safari'', app_arguments = None\<rparr>\<rparr>]
        \<and> notices (openUrl os_open f u True) = [SafariNoPrivateMode])"
  by (intro impI conjI)
     (simp_all add: opened_openUrl notices_openUrl openOptions_default openOptions_incognito)

theorem openUrl_launch_instruction_witness:
  "opened (openUrl (\<lambda>call. True) Missing (JStr ''https://github.com'') True)
     = [\<lparr>target = JStr ''https://github.com'', app = None\<rparr>]
   \<and> notices (openUrl (\<lambda>call. True) Missing (JStr ''https://github.com'') True)
     = [DefaultBrowserIncognito]
   \<and> opened (openUrl (\<lambda>call. True)
        (Json (JObj [(''settings'', JObj [(''browser'', JStr ''chrome'')])]))
        (JStr ''https://github.com'') True)
     = [\<lparr>target = JStr ''https://github.com'',
         app = Some \<lparr>app_name = AppName ''chrome'', app_arguments = Some [''--incognito'']\<rparr>\<rparr>]
   \<and> opened (openUrl (\<lambda>call. True)
        (Json (JObj [(''settings'', JObj [(''browser'', JStr ''firefox'')])]))
        (JStr ''https://github.com'') True)
     = [\<lparr>target = JStr ''https://github.com'',
         app = Some \<lparr>app_name = AppName ''firefox'', app_arguments = Some [''--private-window'']\<rparr>\<rparr>]
   \<and> opened (openUrl (\<lambda>call. True)
        (Json (JObj [(''settings'', JObj [(''browser'', JStr ''edge'')])]))
        (JStr ''https://github.com'') True)
     = [\<lparr>target = JStr ''https://github.com'',
         app = Some \<lparr>app_name = AppName ''msedge'', app_arguments = Some [''--inprivate'']\<rparr>\<rparr>]
   \<and> opened (openUrl (\<lambda>call. True)
        (Json (JObj [(''settings'', JObj [(''browser'', JStr ''brave'')])]))
        (JStr ''https://github.com'') True)
     = [\<lparr>target = JStr ''https://github.com'',
         app = Some \<lparr>app_name = AppName ''brave'', app_arguments = Some [''--incognito'']\<rparr>\<rparr>]
   \<and> opened (openUrl (\<lambda>call. True)
        (Json (JObj [(''settings'', JObj [(''browser'', JStr ''opera'')])]))
        (JStr ''https://github.com'') True)
     = [\<lparr>target = JStr ''https://github.com'',
         app = Some \<lparr>app_name = AppName ''opera'', app_arguments = Some [''--private'']\<rparr>\<rparr>]
   \<and> opened (openUrl (\<lambda>call. True)
        (Json (JObj [(''settings'', JObj [(''browser'', JStr ''safari'')])]))
        (JStr ''https://github.com'') True)
     = [\<lparr>target = JStr ''https://github.com'',
         app = Some \<lparr>app_name = AppName ''safari'', app_arguments = None\<rparr>\<rparr>]
   \<and> notices (openUrl (\<lambda>call. True)
        (Json (JObj [(''settings'', JObj [(''browser'', JStr ''safari'')])]))
        (JStr ''https://github.com'') True)
     = [SafariNoPrivateMode]"
proof -
  let ?o = "\<lambda>call :: open_call. True"
  let ?u = "JStr ''https://github.com''"
  have d: "browser (settings (fst (loadConfig Missing))) = JStr ''default''"
    by (simp add: loadConfig_def defaultConfig_def)
  have h: "browser (settings (fst (loadConfig
              (Json (JObj [(''settings'', JObj [(''browser'', JStr b)])]))))) = JStr b"
    if "b \<noteq> []" for b
    using that by (simp add: loadConfig_def or_default_def)
  note t = openUrl_launch_instruction [of _ _ ?o ?u True]
  from t [of Missing "''default''"] d
  have 0: "opened (openUrl ?o Missing ?u True) = [\<lparr>target = ?u, app = None\<rparr>]
           \<and> notices (openUrl ?o Missing ?u True) = [DefaultBrowserIncognito]"
    by simp
  from t [of "Json (JObj [(''settings'', JObj [(''browser'', JStr ''chrome'')])])" "''chrome''"]
    h [of "''chrome''"]
  have 1: "opened (openUrl ?o
        (Json (JObj [(''settings'', JObj [(''browser'', JStr ''chrome'')])])) ?u True)
     = [\<lparr>target = ?u,
         app = Some \<lparr>app_name = AppName ''chrome'', app_arguments = Some [''--incognito'']\<rparr>\<rparr>]"
    by simp
  from t [of "Json (JObj [(''settings'', JObj [(''browser'', JStr ''firefox'')])])" "''firefox''"]
    h [of "''firefox''"]
  have 2: "opened (openUrl ?o
        (Json (JObj [(''settings'', JObj [(''browser'', JStr ''firefox'')])])) ?u True)
     = [\<lparr>target = ?u,
         app = Some \<lparr>app_name = AppName ''firefox'', app_arguments = Some [''--private-window'']\<rparr>\<rparr>]"
    by simp
  from t [of "Json (JObj [(''settings'', JObj [(''browser'', JStr ''edge'')])])" "''edge''"]
    h [of "''edge''"]
  have 3: "opened (openUrl ?o
        (Json (JObj [(''settings'', JObj [(''browser'', JStr ''edge'')])])) ?u True)
     = [\<lparr>target = ?u,
         app = Some \<lparr>app_name = AppName ''msedge'', app_arguments = Some [''--inprivate'']\<rparr>\<rparr>]"
    by simp
  from t [of "Json (JObj [(''settings'', JObj [(''browser'', JStr ''brave'')])])" "''brave''"]
    h [of "''brave''"]
  have 4: "opened (openUrl ?o
        (Json (JObj [(''settings'', JObj [(''browser'', JStr ''brave'')])])) ?u True)
     = [\<lparr>target = ?u,
         app = Some \<lparr>app_name = AppName ''brave'', app_arguments = Some [''--incognito'']\<rparr>\<rparr>]"
    by simp
  from t [of "Json (JObj [(''settings'', JObj [(''browser'', JStr ''opera'')])])" "''opera''"]
    h [of "''opera''"]
  have 5: "opened (openUrl ?o
        (Json (JObj [(''settings'', JObj [(''browser'', JStr ''opera'')])])) ?u True)
     = [\<lparr>target = ?u,
         app = Some \<lparr>app_name = AppName ''opera'', app_arguments = Some [''--private'']\<rparr>\<rparr>]"
    by simp
  from t [of "Json (JObj [(''settings'', JObj [(''browser'', JStr ''safari'')])])" "''safari''"]
    h [of "''safari''"]
  have 6: "opened (openUrl ?o
        (Json (JObj [(''settings'', JObj [(''browser'', JStr ''safari'')])])) ?u True)
     = [\<lparr>target = ?u, app = Some \<lparr>app_name = AppName ''safari'', app_arguments = None\<rparr>\<rparr>]
     \<and> notices (openUrl ?o
        (Json (JObj [(''settings'', JObj [(''browser'', JStr ''safari'')])])) ?u True)
     = [SafariNoPrivateMode]"
    by simp
  from 0 1 2 3 4 5 6 show ?thesis by blast
qed

text \<open>
  Claim C10 holds for a name such as \<^verbatim>\<open>lynx\<close>: by \<open>openOptions_unsupported_string\<close> a
  persisted browser string that is neither a key of \<^verbatim>\<open>BROWSERS\<close> nor the name of a member
  of \<^verbatim>\<open>Object.prototype\<close> gives the call of the default browser, with no app, and
  \<^verbatim>\<open>openUrl\<close> has no branch that raises \<open>UnsupportedBrowser\<close>.

  It fails for the names of the members of \<^verbatim>\<open>Object.prototype\<close>. \<^verbatim>\<open>validateBrowser\<close> tests
  with \<^verbatim>\<open>hasOwnProperty\<close> and rejects \<^verbatim>\<open>constructor\<close>; \<^verbatim>\<open>openUrl\<close> reads
  \<^verbatim>\<open>BROWSERS[browserName]\<close> without that test, finds the inherited member, which is truthy,
  and hands it to the OS-open facility as the app.
\<close>

theorem openUrl_inherited_browser_name:
  "validateBrowser ''constructor'' = Inl (UnsupportedBrowser (map fst BROWSERS))
   \<and> opened (openUrl (\<lambda>call. True)
        (Json (JObj [(''settings'', JObj [(''browser'', JStr ''constructor'')])]))
        (JStr ''https://github.com'') False)
     = [\<lparr>target = JStr ''https://github.com'',
         app = Some \<lparr>app_name = Inherited ''constructor'', app_arguments = None\<rparr>\<rparr>]
   \<and> opened (openUrl (\<lambda>call. True)
        (Json (JObj [(''settings'', JObj [(''browser'', JStr ''lynx'')])]))
        (JStr ''https://github.com'') False)
     = [\<lparr>target = JStr ''https://github.com'', app = None\<rparr>]
   \<and> opened (openUrl (\<lambda>call. True)
        (Json (JObj [(''settings'', JObj [(''browser'', JStr ''default'')])]))
        (JStr ''https://github.com'') False)
     = [\<lparr>target = JStr ''https://github.com'', app = None\<rparr>]"
  by code_simp

end
